theory Spec2Isabelle
  imports Complex_Main "HOL-Library.Word"
begin

section \<open>Shared notions of both executors\<close>

text \<open>
  A Go \<^verbatim>\<open>time.Duration\<close> is a signed 64-bit count of nanoseconds. It is modelled as
  an \<^typ>\<open>int\<close>; the one multiplication the executors perform on it
  (\<^verbatim>\<open>time.Duration(e.Timeout) * time.Second\<close>) wraps as int64 does.
  \<^verbatim>\<open>Duration.Seconds()\<close> yields a float64; it is modelled as the exact quotient, so
  the rounding of the conversion is not part of the model.
\<close>

definition Second :: int where
  "Second = 1000000000"

definition timeout_of :: "int \<Rightarrow> int" where
  "timeout_of t = sint (word_of_int (t * Second) :: 64 word)"

definition Seconds :: "int \<Rightarrow> real" where
  "Seconds d = real_of_int d / 1000000000"

text \<open>
  A \<^verbatim>\<open>context.Context\<close>: the caller's context, or one derived from a parent by
  \<^verbatim>\<open>context.WithTimeout\<close>.
\<close>

datatype Ctx = Background | WithTimeout Ctx int

definition newline :: string where
  "newline = [CHR 0x0A]"

section \<open>DNS executor (executors/dns/dns.go)\<close>

subsection \<open>Data\<close>

text \<open>The decoded step: \<^verbatim>\<open>type Executor struct\<close>.\<close>

record dns_Executor =
  dns_Server :: string
  dns_Query :: string
  dns_QType :: string
  dns_Timeout :: int

text \<open>
  A value stored in an \<^verbatim>\<open>interface{}\<close> of the response tree. A
  \<^verbatim>\<open>map[string]interface{}\<close> is a list of bindings with distinct keys, built by
  \<open>assign\<close> (the Go statement \<^verbatim>\<open>m[k] = v\<close>).
\<close>

datatype jv = JStr string | JBool bool | JNum int | JStrs "string list" | JObjs "(string \<times> jv) list list"

type_synonym jobj = "(string \<times> jv) list"

fun assign :: "string \<Rightarrow> jv \<Rightarrow> jobj \<Rightarrow> jobj" where
  "assign k v [] = [(k, v)]"
| "assign k v ((k', v') # m) = (if k = k' then (k, v) # m else (k', v') # assign k v m)"

text \<open>The step result: \<^verbatim>\<open>type Result struct\<close>. A nil \<^verbatim>\<open>interface{}\<close> is \<open>None\<close>.\<close>

record dns_Result =
  dnsr_Query :: string
  dnsr_QType :: string
  dnsr_Server :: string
  dnsr_RCode :: string
  dnsr_Message :: "jobj option"
  dnsr_Systemout :: string
  dnsr_SystemoutJSON :: "jobj option"
  dnsr_Systemerr :: string
  dnsr_SystemerrJSON :: "jobj option"
  dnsr_Err :: string
  dnsr_TimeSeconds :: real

text \<open>The fields of \<^verbatim>\<open>dns.Msg\<close>, \<^verbatim>\<open>dns.Question\<close> and the resource records that dns.go reads.\<close>

record Question =
  q_Name :: string
  q_Qtype :: "16 word"
  q_Qclass :: "16 word"

record RR_Header =
  h_Name :: string
  h_Rrtype :: "16 word"
  h_Class :: "16 word"
  h_Ttl :: "32 word"

datatype RR =
    RR_A RR_Header "8 word list"
  | RR_AAAA RR_Header "8 word list"
  | RR_MX RR_Header "16 word" string
  | RR_TXT RR_Header "string list"
  | RR_CNAME RR_Header string
  | RR_NS RR_Header string
  | RR_PTR RR_Header string
  | RR_SOA RR_Header string string "32 word" "32 word" "32 word" "32 word" "32 word"
  | RR_SRV RR_Header "16 word" "16 word" "16 word" string
  | RR_CAA RR_Header "8 word" string string
  | RR_Other RR_Header

fun Header :: "RR \<Rightarrow> RR_Header" where
  "Header (RR_A h _) = h"
| "Header (RR_AAAA h _) = h"
| "Header (RR_MX h _ _) = h"
| "Header (RR_TXT h _) = h"
| "Header (RR_CNAME h _) = h"
| "Header (RR_NS h _) = h"
| "Header (RR_PTR h _) = h"
| "Header (RR_SOA h _ _ _ _ _ _ _) = h"
| "Header (RR_SRV h _ _ _ _) = h"
| "Header (RR_CAA h _ _ _) = h"
| "Header (RR_Other h) = h"

record Msg =
  m_Id :: "16 word"
  m_Response :: bool
  m_Opcode :: int
  m_Authoritative :: bool
  m_Truncated :: bool
  m_RecursionDesired :: bool
  m_RecursionAvailable :: bool
  m_Zero :: bool
  m_AuthenticatedData :: bool
  m_CheckingDisabled :: bool
  m_Rcode :: int
  m_Question :: "Question list"
  m_Answer :: "RR list"
  m_Ns :: "RR list"
  m_Extra :: "RR list"

text \<open>\<^verbatim>\<open>new(dns.Msg)\<close>: every field at its zero value.\<close>

definition new_Msg :: Msg where
  "new_Msg = \<lparr> m_Id = 0, m_Response = False, m_Opcode = 0, m_Authoritative = False,
     m_Truncated = False, m_RecursionDesired = False, m_RecursionAvailable = False,
     m_Zero = False, m_AuthenticatedData = False, m_CheckingDisabled = False, m_Rcode = 0,
     m_Question = [], m_Answer = [], m_Ns = [], m_Extra = [] \<rparr>"

subsection \<open>What dns.go takes from its libraries and from the outside world\<close>

text \<open>
  The functions and tables of mapstructure, miekg/dns, fmt and net that dns.go calls are
  parameters of the model: \<open>dns_Decode\<close> is \<^verbatim>\<open>mapstructure.Decode(step, &e)\<close> (its
  error, or the decoded struct), a table is its lookup function (a Go map lookup on a
  missing key gives the empty string).
\<close>

record 's dns_lib =
  dns_Decode :: "'s \<Rightarrow> string + dns_Executor"
  Fqdn :: "string \<Rightarrow> string"
  RcodeToString :: "int \<Rightarrow> string"
  OpcodeToString :: "int \<Rightarrow> string"
  TypeToString :: "16 word \<Rightarrow> string"
  ClassToString :: "16 word \<Rightarrow> string"
  RR_String :: "RR \<Rightarrow> string"
  IP_String :: "8 word list \<Rightarrow> string"
  Duration_String :: "int \<Rightarrow> string"

text \<open>
  One network exchange, as \<^verbatim>\<open>client.ExchangeContext(ctx, m, server)\<close> performs it for
  a client whose \<^verbatim>\<open>Net\<close> is the first component.
\<close>

datatype dns_event = dns_Exchanged string Ctx Msg string

text \<open>
  The outside world: the message identifiers \<^verbatim>\<open>dns.Id()\<close> draws (the n-th draw of
  the invocation), the outcome of an exchange (an error, or the response and its round
  trip time), and what \<^verbatim>\<open>time.Since(start)\<close> reads once the given exchanges have
  been performed.
\<close>

record dns_env =
  new_Id :: "nat \<Rightarrow> 16 word"
  ExchangeContext :: "string \<Rightarrow> Ctx \<Rightarrow> Msg \<Rightarrow> string \<Rightarrow> string + (Msg \<times> int)"
  dns_Since :: "dns_event list \<Rightarrow> int"

text \<open>
  \<^verbatim>\<open>(*Msg).SetQuestion(z, t)\<close> of miekg/dns: a fresh identifier, recursion desired,
  and the single question \<^verbatim>\<open>Question{z, t, ClassINET}\<close>.
\<close>

definition ClassINET :: "16 word" where
  "ClassINET = 1"

definition SetQuestion :: "16 word \<Rightarrow> Msg \<Rightarrow> string \<Rightarrow> 16 word \<Rightarrow> Msg" where
  "SetQuestion fresh m z t =
     m\<lparr> m_Id := fresh, m_RecursionDesired := True,
        m_Question := [\<lparr> q_Name = z, q_Qtype = t, q_Qclass = ClassINET \<rparr>] \<rparr>"

subsection \<open>stringToQType\<close>

text \<open>The record type codes \<^verbatim>\<open>dns.TypeA\<close>, ... of miekg/dns.\<close>

definition TypeA :: "16 word" where "TypeA = 1"
definition TypeNS :: "16 word" where "TypeNS = 2"
definition TypeCNAME :: "16 word" where "TypeCNAME = 5"
definition TypeSOA :: "16 word" where "TypeSOA = 6"
definition TypePTR :: "16 word" where "TypePTR = 12"
definition TypeMX :: "16 word" where "TypeMX = 15"
definition TypeTXT :: "16 word" where "TypeTXT = 16"
definition TypeAAAA :: "16 word" where "TypeAAAA = 28"
definition TypeSRV :: "16 word" where "TypeSRV = 33"
definition TypeANY :: "16 word" where "TypeANY = 255"
definition TypeCAA :: "16 word" where "TypeCAA = 257"

definition stringToQType :: "string \<Rightarrow> string + 16 word" where
  "stringToQType qtype =
     (if qtype = ''A'' then Inr TypeA
      else if qtype = ''AAAA'' then Inr TypeAAAA
      else if qtype = ''MX'' then Inr TypeMX
      else if qtype = ''TXT'' then Inr TypeTXT
      else if qtype = ''CNAME'' then Inr TypeCNAME
      else if qtype = ''NS'' then Inr TypeNS
      else if qtype = ''PTR'' then Inr TypePTR
      else if qtype = ''SOA'' then Inr TypeSOA
      else if qtype = ''SRV'' then Inr TypeSRV
      else if qtype = ''CAA'' then Inr TypeCAA
      else if qtype = ''ANY'' then Inr TypeANY
      else Inl (''unsupported DNS record type: '' @ qtype))"

subsection \<open>rrToJSON and dnsMessageToJSON\<close>

definition rrToJSON :: "'s dns_lib \<Rightarrow> RR \<Rightarrow> jobj" where
  "rrToJSON lib rr =
     (let result = [(''name'', JStr (h_Name (Header rr))),
                    (''type'', JStr (TypeToString lib (h_Rrtype (Header rr)))),
                    (''class'', JStr (ClassToString lib (h_Class (Header rr)))),
                    (''ttl'', JNum (uint (h_Ttl (Header rr))))];
          result = assign ''value'' (JStr (RR_String lib rr)) result
      in case rr of
           RR_A _ a \<Rightarrow> assign ''address'' (JStr (IP_String lib a)) result
         | RR_AAAA _ a \<Rightarrow> assign ''address'' (JStr (IP_String lib a)) result
         | RR_MX _ preference mx \<Rightarrow>
             assign ''mx'' (JStr mx) (assign ''preference'' (JNum (uint preference)) result)
         | RR_TXT _ txt \<Rightarrow> assign ''txt'' (JStrs txt) result
         | RR_CNAME _ target \<Rightarrow> assign ''target'' (JStr target) result
         | RR_NS _ ns \<Rightarrow> assign ''ns'' (JStr ns) result
         | RR_PTR _ ptr \<Rightarrow> assign ''ptr'' (JStr ptr) result
         | RR_SOA _ ns mbox serial refresh retry expire minttl \<Rightarrow>
             assign ''minttl'' (JNum (uint minttl))
              (assign ''expire'' (JNum (uint expire))
               (assign ''retry'' (JNum (uint retry))
                (assign ''refresh'' (JNum (uint refresh))
                 (assign ''serial'' (JNum (uint serial))
                  (assign ''mbox'' (JStr mbox)
                   (assign ''ns'' (JStr ns) result))))))
         | RR_SRV _ priority weight port target \<Rightarrow>
             assign ''target'' (JStr target)
              (assign ''port'' (JNum (uint port))
               (assign ''weight'' (JNum (uint weight))
                (assign ''priority'' (JNum (uint priority)) result)))
         | RR_CAA _ flag tag val \<Rightarrow>
             assign ''value'' (JStr val)
              (assign ''tag'' (JStr tag)
               (assign ''flag'' (JNum (uint flag)) result))
         | RR_Other _ \<Rightarrow> result)"

definition questionToJSON :: "'s dns_lib \<Rightarrow> Question \<Rightarrow> jobj" where
  "questionToJSON lib q =
     [(''name'', JStr (q_Name q)),
      (''type'', JStr (TypeToString lib (q_Qtype q))),
      (''class'', JStr (ClassToString lib (q_Qclass q)))]"

text \<open>
  \<^verbatim>\<open>dnsMessageToJSON\<close> returns the tree and an error; \<open>Inl\<close> is the error. The
  message is the one a successful exchange returned, so the pointer is not nil.
\<close>

definition dnsMessageToJSON :: "'s dns_lib \<Rightarrow> Msg \<Rightarrow> string + jobj" where
  "dnsMessageToJSON lib msg =
     (let result = [];
          result = assign ''id'' (JNum (uint (m_Id msg))) result;
          result = assign ''response'' (JBool (m_Response msg)) result;
          result = assign ''opcode'' (JStr (OpcodeToString lib (m_Opcode msg))) result;
          result = assign ''authoritative'' (JBool (m_Authoritative msg)) result;
          result = assign ''truncated'' (JBool (m_Truncated msg)) result;
          result = assign ''recursion_desired'' (JBool (m_RecursionDesired msg)) result;
          result = assign ''recursion_available'' (JBool (m_RecursionAvailable msg)) result;
          result = assign ''zero'' (JBool (m_Zero msg)) result;
          result = assign ''authenticated_data'' (JBool (m_AuthenticatedData msg)) result;
          result = assign ''checking_disabled'' (JBool (m_CheckingDisabled msg)) result;
          result = assign ''rcode'' (JStr (RcodeToString lib (m_Rcode msg))) result;
          result = assign ''question'' (JObjs (map (questionToJSON lib) (m_Question msg))) result;
          result = assign ''answer'' (JObjs (map (rrToJSON lib) (m_Answer msg))) result;
          result = assign ''authority'' (JObjs (map (rrToJSON lib) (m_Ns msg))) result;
          result = assign ''additional'' (JObjs (map (rrToJSON lib) (m_Extra msg))) result
      in Inr result)"

subsection \<open>Run\<close>

text \<open>Lines 66-72: the defaults.\<close>

definition dns_defaults :: "dns_Executor \<Rightarrow> dns_Executor" where
  "dns_defaults e =
     (let e = (if dns_QType e = '''' then e\<lparr> dns_QType := ''A'' \<rparr> else e);
          e = (if dns_Timeout e = 0 then e\<lparr> dns_Timeout := 5 \<rparr> else e)
      in e)"

text \<open>Lines 74-78: the result as first built, every other field at its zero value.\<close>

definition dns_Result0 :: "dns_Executor \<Rightarrow> dns_Result" where
  "dns_Result0 e =
     \<lparr> dnsr_Query = dns_Query e, dnsr_QType = dns_QType e, dnsr_Server = dns_Server e,
       dnsr_RCode = '''', dnsr_Message = None, dnsr_Systemout = '''',
       dnsr_SystemoutJSON = None, dnsr_Systemerr = '''', dnsr_SystemerrJSON = None,
       dnsr_Err = '''', dnsr_TimeSeconds = 0 \<rparr>"

text \<open>
  Lines 91-93 and 114-116: a question message, built on a new \<^verbatim>\<open>dns.Msg\<close> with the
  n-th identifier the invocation draws.
\<close>

definition dns_question :: "'s dns_lib \<Rightarrow> dns_env \<Rightarrow> nat \<Rightarrow> dns_Executor \<Rightarrow> 16 word \<Rightarrow> Msg" where
  "dns_question lib env n e qType =
     (let m = SetQuestion (new_Id env n) new_Msg (Fqdn lib (dns_Query e)) qType
      in m\<lparr> m_RecursionDesired := True \<rparr>)"

text \<open>
  Lines 111-134: the TCP retry. Given the UDP response and its round trip time, the
  result so far and the exchanges performed so far, it yields the working response, the
  working round trip time, the result and the exchanges performed.
\<close>

definition dns_retry ::
  "'s dns_lib \<Rightarrow> dns_env \<Rightarrow> Ctx \<Rightarrow> dns_Executor \<Rightarrow> 16 word \<Rightarrow> Msg \<Rightarrow> int \<Rightarrow> dns_Result \<Rightarrow> dns_event list
     \<Rightarrow> Msg \<times> int \<times> dns_Result \<times> dns_event list" where
  "dns_retry lib env ctx e qType response rtt result done =
     (if m_Truncated response then
        (let mTCP = dns_question lib env 1 e qType;
             done = done @ [dns_Exchanged ''tcp'' ctx mTCP (dns_Server e)]
         in case ExchangeContext env ''tcp'' ctx mTCP (dns_Server e) of
              Inl tcpErr \<Rightarrow>
                (response, rtt,
                 result\<lparr> dnsr_Err := ''UDP response truncated, TCP retry failed: '' @ tcpErr \<rparr>,
                 done)
            | Inr (tcpResponse, tcpRtt) \<Rightarrow>
                if m_Truncated tcpResponse then
                  (response, rtt,
                   result\<lparr> dnsr_Err :=
                     ''UDP response truncated, TCP retry also returned truncated response'' \<rparr>,
                   done)
                else (tcpResponse, tcpRtt, result, done))
      else (response, rtt, result, done))"

text \<open>Lines 152-153: the head of the human-readable output.\<close>

definition dns_summary :: "'s dns_lib \<Rightarrow> dns_Executor \<Rightarrow> string \<Rightarrow> int \<Rightarrow> string" where
  "dns_summary lib e rcode rtt =
     ''DNS Query: '' @ dns_Query e @ '' '' @ dns_QType e @ newline
     @ ''Server: '' @ dns_Server e @ newline
     @ ''RCode: '' @ rcode @ newline
     @ ''Response Time: '' @ Duration_String lib rtt @ newline"

text \<open>Lines 136-162: the result is assembled from the working response.\<close>

definition dns_assemble ::
  "'s dns_lib \<Rightarrow> dns_env \<Rightarrow> dns_Executor \<Rightarrow> Msg \<Rightarrow> int \<Rightarrow> dns_Result \<Rightarrow> dns_event list \<Rightarrow> dns_Result" where
  "dns_assemble lib env e response rtt result done =
     (let result = result\<lparr> dnsr_TimeSeconds := Seconds (dns_Since env done) \<rparr>;
          result = result\<lparr> dnsr_RCode := RcodeToString lib (m_Rcode response) \<rparr>
      in case dnsMessageToJSON lib response of
           Inl err \<Rightarrow> result\<lparr> dnsr_Err := ''failed to convert DNS message to JSON: '' @ err \<rparr>
         | Inr msgJSON \<Rightarrow>
             (let result = result\<lparr> dnsr_Message := Some msgJSON \<rparr>;
                  result = result\<lparr> dnsr_SystemoutJSON := Some msgJSON \<rparr>;
                  result = result\<lparr> dnsr_Systemout := dns_summary lib e (dnsr_RCode result) rtt \<rparr>
              in if length (m_Answer response) > 0 then
                   result\<lparr> dnsr_Systemout :=
                     foldl (\<lambda>out rr. out @ ''  '' @ RR_String lib rr @ newline)
                       (dnsr_Systemout result @ ''Answers:'' @ newline) (m_Answer response) \<rparr>
                 else result))"

text \<open>
  \<^verbatim>\<open>Run\<close> returns \<^verbatim>\<open>(nil, err)\<close>, modelled as \<open>Inl err\<close>, or
  \<^verbatim>\<open>(result, nil)\<close>, modelled as \<open>Inr result\<close>; the second component lists the
  network exchanges the invocation performed, in order.
\<close>

definition dns_Run :: "'s dns_lib \<Rightarrow> dns_env \<Rightarrow> Ctx \<Rightarrow> 's \<Rightarrow> (string + dns_Result) \<times> dns_event list" where
  "dns_Run lib env ctx0 step =
     (case dns_Decode lib step of
        Inl err \<Rightarrow> (Inl err, [])
      | Inr e \<Rightarrow>
          if dns_Server e = '''' then (Inl ''server is mandatory for DNS executor'', [])
          else
            (let e = dns_defaults e;
                 result = dns_Result0 e
             in case stringToQType (dns_QType e) of
                  Inl err \<Rightarrow>
                    (Inr (result\<lparr> dnsr_Err := err,
                                  dnsr_TimeSeconds := Seconds (dns_Since env []) \<rparr>), [])
                | Inr qType \<Rightarrow>
                    (let m = dns_question lib env 0 e qType;
                         ctx = WithTimeout ctx0 (timeout_of (dns_Timeout e));
                         done = [dns_Exchanged ''udp'' ctx m (dns_Server e)]
                     in case ExchangeContext env ''udp'' ctx m (dns_Server e) of
                          Inl err \<Rightarrow>
                            (Inr (result\<lparr> dnsr_Err := err,
                                          dnsr_TimeSeconds := Seconds (dns_Since env done) \<rparr>), done)
                        | Inr (response, rtt) \<Rightarrow>
                            (case dns_retry lib env ctx e qType response rtt result done of
                               (response, rtt, result, done) \<Rightarrow>
                                 (Inr (dns_assemble lib env e response rtt result done), done)))))"

section \<open>RADIUS executor (executors/radius/radius.go)\<close>

subsection \<open>Data\<close>

text \<open>
  The decoded step: \<^verbatim>\<open>type Executor struct\<close>. The attribute map is the list of its
  bindings in the order in which the \<^verbatim>\<open>range\<close> loop of this invocation visits them
  (Go leaves the order to the runtime); a nil map is the empty list.
\<close>

record rad_Executor =
  rad_Server :: string
  rad_Secret :: string
  rad_Code :: string
  rad_Timeout :: int
  rad_Attributes :: "(string \<times> string) list"

text \<open>The map stored in \<^verbatim>\<open>Result.Request\<close>, with its three keys.\<close>

record rad_Request =
  req_server :: string
  req_code :: string
  req_attributes :: "(string \<times> string) list"

text \<open>The step result: \<^verbatim>\<open>type Result struct\<close>. A nil map or interface is \<open>None\<close>.\<close>

record rad_Result =
  radr_Systemout :: string
  radr_SystemoutJSON :: "(string \<times> (string \<times> string) list) option"
  radr_Systemerr :: string
  radr_SystemerrJSON :: "unit option"
  radr_Err :: string
  radr_Code :: string
  radr_TimeSeconds :: real
  radr_Attributes :: "(string \<times> string) list option"
  radr_Request :: "rad_Request option"

text \<open>The packet codes \<^verbatim>\<open>radius.CodeAccessRequest\<close>, ... that \<^verbatim>\<open>Run\<close> names.\<close>

datatype Code =
    CodeAccessRequest | CodeAccessAccept | CodeAccessReject | CodeAccountingRequest
  | CodeAccountingResponse | CodeAccessChallenge | CodeStatusServer | CodeStatusClient
  | CodeDisconnectRequest | CodeDisconnectACK | CodeDisconnectNAK | CodeCoARequest
  | CodeCoAACK | CodeCoANAK

text \<open>
  The request packet is what \<^verbatim>\<open>radius.New(code, secret)\<close> was given, and the calls of
  the attribute setters of rfc2865 and rfc2866 made on it, in order, each with the
  argument it was handed: a string, a byte slice, or a value of a uint32 attribute type.
  What a setter stores, and the error it may return, is the library's business;
  \<^verbatim>\<open>addAttribute\<close> discards every setter's return value.
\<close>

datatype setter_arg = AString string | ABytes "8 word list" | AUint32 "32 word"

record Packet =
  p_Code :: Code
  p_Secret :: "8 word list"
  p_calls :: "(string \<times> setter_arg) list"

text \<open>\<^verbatim>\<open>[]byte(s)\<close>: the bytes of a string.\<close>

definition bytes_of :: "string \<Rightarrow> 8 word list" where
  "bytes_of s = map of_char s"

definition New :: "Code \<Rightarrow> 8 word list \<Rightarrow> Packet" where
  "New code secret = \<lparr> p_Code = code, p_Secret = secret, p_calls = [] \<rparr>"

definition call :: "string \<Rightarrow> setter_arg \<Rightarrow> Packet \<Rightarrow> Packet" where
  "call setter arg packet = packet\<lparr> p_calls := p_calls packet @ [(setter, arg)] \<rparr>"

text \<open>
  What \<^verbatim>\<open>Run\<close> reads of the response packet: \<^verbatim>\<open>response.Code.String()\<close> and the
  three \<^verbatim>\<open>_GetString\<close> lookups.
\<close>

record rad_Response =
  resp_Code_String :: string
  resp_UserName :: string
  resp_ReplyMessage :: string
  resp_AcctSessionID :: string

subsection \<open>What radius.go takes from its libraries and from the outside world\<close>

text \<open>
  \<open>rad_Decode\<close> is \<^verbatim>\<open>mapstructure.Decode(step, &e)\<close>; \<open>Atoi\<close> is
  \<^verbatim>\<open>strconv.Atoi\<close>, \<open>None\<close> when it returns an error.
\<close>

record 's rad_lib =
  rad_Decode :: "'s \<Rightarrow> string + rad_Executor"
  Atoi :: "string \<Rightarrow> int option"

datatype rad_event = rad_Exchanged Ctx Packet string

text \<open>
  The outside world: the outcome of \<^verbatim>\<open>radius.Exchange(ctx, packet, server)\<close>, and what
  \<^verbatim>\<open>time.Since(start)\<close> reads once the given exchanges have been performed.
\<close>

record rad_env =
  Exchange :: "Ctx \<Rightarrow> Packet \<Rightarrow> string \<Rightarrow> string + rad_Response"
  rad_Since :: "rad_event list \<Rightarrow> int"

subsection \<open>addAttribute\<close>

text \<open>The inner switches of \<^verbatim>\<open>addAttribute\<close>, one per enumerated attribute.\<close>

definition serviceType_of :: "string \<Rightarrow> 32 word option" where
  "serviceType_of v =
     (if v = ''Login-User'' then Some 1
      else if v = ''Framed-User'' then Some 2
      else if v = ''Callback-Login-User'' then Some 3
      else if v = ''Callback-Framed-User'' then Some 4
      else if v = ''Outbound-User'' then Some 5
      else if v = ''Administrative-User'' then Some 6
      else if v = ''NAS-Prompt-User'' then Some 7
      else if v = ''Call-Check-User'' then Some 8
      else if v = ''Callback-Administrative-User'' then Some 9
      else None)"

definition protocol_of :: "string \<Rightarrow> 32 word option" where
  "protocol_of v =
     (if v = ''PPP'' then Some 1
      else if v = ''SLIP'' then Some 2
      else if v = ''ARAP'' then Some 3
      else if v = ''Gandalf'' then Some 4
      else if v = ''Xylogics'' then Some 5
      else if v = ''X.75-Synchronous'' then Some 6
      else None)"

definition routing_of :: "string \<Rightarrow> 32 word option" where
  "routing_of v =
     (if v = ''None'' then Some 0
      else if v = ''Broadcast'' then Some 1
      else if v = ''Listen'' then Some 2
      else if v = ''Broadcast-Listen'' then Some 3
      else None)"

definition action_of :: "string \<Rightarrow> 32 word option" where
  "action_of v =
     (if v = ''Default'' then Some 0
      else if v = ''RADIUS-Request'' then Some 1
      else None)"

definition status_of :: "string \<Rightarrow> 32 word option" where
  "status_of v =
     (if v = ''Start'' then Some 1
      else if v = ''Stop'' then Some 2
      else if v = ''Interim-Update'' then Some 3
      else if v = ''Accounting-On'' then Some 7
      else if v = ''Accounting-Off'' then Some 8
      else None)"

definition authentic_of :: "string \<Rightarrow> 32 word option" where
  "authentic_of v =
     (if v = ''RADIUS'' then Some 1
      else if v = ''Local'' then Some 2
      else if v = ''Remote'' then Some 3
      else None)"

definition cause_of :: "string \<Rightarrow> 32 word option" where
  "cause_of v =
     (if v = ''User-Request'' then Some 1
      else if v = ''Lost-Carrier'' then Some 2
      else if v = ''Lost-Service'' then Some 3
      else if v = ''Idle-Timeout'' then Some 4
      else if v = ''Session-Timeout'' then Some 5
      else if v = ''Admin-Reset'' then Some 6
      else if v = ''Admin-Reboot'' then Some 7
      else if v = ''Port-Error'' then Some 8
      else if v = ''NAS-Error'' then Some 9
      else if v = ''NAS-Request'' then Some 10
      else if v = ''NAS-Reboot'' then Some 11
      else if v = ''Port-Unneeded'' then Some 12
      else if v = ''Port-Preempted'' then Some 13
      else if v = ''Port-Suspended'' then Some 14
      else if v = ''Service-Unavailable'' then Some 15
      else if v = ''Callback'' then Some 16
      else if v = ''User-Error'' then Some 17
      else if v = ''Host-Request'' then Some 18
      else None)"

text \<open>
  The three shapes of a case of the outer switch that can fail: an integer attribute
  (\<^verbatim>\<open>strconv.Atoi\<close>, then the conversion to the uint32 attribute type) and an
  enumerated attribute.
\<close>

definition set_int :: "'s rad_lib \<Rightarrow> string \<Rightarrow> string \<Rightarrow> Packet \<Rightarrow> string \<Rightarrow> string + Packet" where
  "set_int lib setter name packet v =
     (case Atoi lib v of
        Some n \<Rightarrow> Inr (call setter (AUint32 (word_of_int n)) packet)
      | None \<Rightarrow> Inl (''invalid '' @ name @ '' value: '' @ v))"

definition set_enum ::
  "(string \<Rightarrow> 32 word option) \<Rightarrow> string \<Rightarrow> string \<Rightarrow> Packet \<Rightarrow> string \<Rightarrow> string + Packet" where
  "set_enum table setter name packet v =
     (case table v of
        Some c \<Rightarrow> Inr (call setter (AUint32 c) packet)
      | None \<Rightarrow> Inl (''unsupported '' @ name @ '': '' @ v))"

text \<open>
  \<^verbatim>\<open>addAttribute(packet, name, value)\<close>: \<open>Inl\<close> is the error returned, \<open>Inr\<close> the
  packet after the call (the Go function updates it in place and returns nil).
\<close>

definition addAttribute :: "'s rad_lib \<Rightarrow> Packet \<Rightarrow> string \<Rightarrow> string \<Rightarrow> string + Packet" where
  "addAttribute lib packet name v =
     (if name = ''User-Name'' then Inr (call ''rfc2865.UserName_SetString'' (AString v) packet)
      else if name = ''User-Password'' then Inr (call ''rfc2865.UserPassword_SetString'' (AString v) packet)
      else if name = ''NAS-IP-Address'' then Inr (call ''rfc2865.NASIPAddress_Set'' (ABytes (bytes_of v)) packet)
      else if name = ''NAS-Port'' then set_int lib ''rfc2865.NASPort_Set'' ''NAS-Port'' packet v
      else if name = ''Service-Type'' then set_enum serviceType_of ''rfc2865.ServiceType_Set'' ''Service-Type'' packet v
      else if name = ''Framed-Protocol'' then set_enum protocol_of ''rfc2865.FramedProtocol_Set'' ''Framed-Protocol'' packet v
      else if name = ''Framed-IP-Address'' then Inr (call ''rfc2865.FramedIPAddress_Set'' (ABytes (bytes_of v)) packet)
      else if name = ''Framed-IP-Netmask'' then Inr (call ''rfc2865.FramedIPNetmask_Set'' (ABytes (bytes_of v)) packet)
      else if name = ''Framed-Routing'' then set_enum routing_of ''rfc2865.FramedRouting_Set'' ''Framed-Routing'' packet v
      else if name = ''Filter-Id'' then Inr (call ''rfc2865.FilterID_SetString'' (AString v) packet)
      else if name = ''Framed-MTU'' then set_int lib ''rfc2865.FramedMTU_Set'' ''Framed-MTU'' packet v
      else if name = ''Reply-Message'' then Inr (call ''rfc2865.ReplyMessage_SetString'' (AString v) packet)
      else if name = ''Callback-Number'' then Inr (call ''rfc2865.CallbackNumber_SetString'' (AString v) packet)
      else if name = ''Callback-Id'' then Inr (call ''rfc2865.CallbackID_SetString'' (AString v) packet)
      else if name = ''Framed-Route'' then Inr (call ''rfc2865.FramedRoute_SetString'' (AString v) packet)
      else if name = ''Framed-IPX-Network'' then Inr (call ''rfc2865.FramedIPXNetwork_Set'' (ABytes (bytes_of v)) packet)
      else if name = ''State'' then Inr (call ''rfc2865.State_SetString'' (AString v) packet)
      else if name = ''Class'' then Inr (call ''rfc2865.Class_SetString'' (AString v) packet)
      else if name = ''Session-Timeout'' then set_int lib ''rfc2865.SessionTimeout_Set'' ''Session-Timeout'' packet v
      else if name = ''Idle-Timeout'' then set_int lib ''rfc2865.IdleTimeout_Set'' ''Idle-Timeout'' packet v
      else if name = ''Termination-Action'' then set_enum action_of ''rfc2865.TerminationAction_Set'' ''Termination-Action'' packet v
      else if name = ''Called-Station-Id'' then Inr (call ''rfc2865.CalledStationID_SetString'' (AString v) packet)
      else if name = ''Calling-Station-Id'' then Inr (call ''rfc2865.CallingStationID_SetString'' (AString v) packet)
      else if name = ''NAS-Identifier'' then Inr (call ''rfc2865.NASIdentifier_SetString'' (AString v) packet)
      else if name = ''Proxy-State'' then Inr (call ''rfc2865.ProxyState_SetString'' (AString v) packet)
      else if name = ''Login-LAT-Service'' then Inr (call ''rfc2865.LoginLATService_SetString'' (AString v) packet)
      else if name = ''Login-LAT-Node'' then Inr (call ''rfc2865.LoginLATNode_SetString'' (AString v) packet)
      else if name = ''Login-LAT-Group'' then Inr (call ''rfc2865.LoginLATGroup_SetString'' (AString v) packet)
      else if name = ''Framed-AppleTalk-Zone'' then Inr (call ''rfc2865.FramedAppleTalkZone_SetString'' (AString v) packet)
      else if name = ''Acct-Status-Type'' then set_enum status_of ''rfc2866.AcctStatusType_Set'' ''Acct-Status-Type'' packet v
      else if name = ''Acct-Session-Id'' then Inr (call ''rfc2866.AcctSessionID_SetString'' (AString v) packet)
      else if name = ''Acct-Authentic'' then set_enum authentic_of ''rfc2866.AcctAuthentic_Set'' ''Acct-Authentic'' packet v
      else if name = ''Acct-Session-Time'' then set_int lib ''rfc2866.AcctSessionTime_Set'' ''Acct-Session-Time'' packet v
      else if name = ''Acct-Input-Octets'' then set_int lib ''rfc2866.AcctInputOctets_Set'' ''Acct-Input-Octets'' packet v
      else if name = ''Acct-Output-Octets'' then set_int lib ''rfc2866.AcctOutputOctets_Set'' ''Acct-Output-Octets'' packet v
      else if name = ''Acct-Input-Packets'' then set_int lib ''rfc2866.AcctInputPackets_Set'' ''Acct-Input-Packets'' packet v
      else if name = ''Acct-Output-Packets'' then set_int lib ''rfc2866.AcctOutputPackets_Set'' ''Acct-Output-Packets'' packet v
      else if name = ''Acct-Terminate-Cause'' then set_enum cause_of ''rfc2866.AcctTerminateCause_Set'' ''Acct-Terminate-Cause'' packet v
      else if name = ''Acct-Multi-Session-Id'' then Inr (call ''rfc2866.AcctMultiSessionID_SetString'' (AString v) packet)
      else if name = ''Acct-Link-Count'' then set_int lib ''rfc2866.AcctLinkCount_Set'' ''Acct-Link-Count'' packet v
      else Inl (''unsupported attribute: '' @ name))"

subsection \<open>Run\<close>

text \<open>Lines 64-76: the defaults.\<close>

definition rad_defaults :: "rad_Executor \<Rightarrow> rad_Executor" where
  "rad_defaults e =
     (let e = (if rad_Server e = '''' then e\<lparr> rad_Server := ''localhost:1812'' \<rparr> else e);
          e = (if rad_Secret e = '''' then e\<lparr> rad_Secret := ''secret'' \<rparr> else e);
          e = (if rad_Code e = '''' then e\<lparr> rad_Code := ''Access-Request'' \<rparr> else e);
          e = (if rad_Timeout e = 0 then e\<lparr> rad_Timeout := 5 \<rparr> else e)
      in e)"

text \<open>Line 78: \<^verbatim>\<open>result := Result{}\<close>.\<close>

definition rad_Result0 :: rad_Result where
  "rad_Result0 =
     \<lparr> radr_Systemout = '''', radr_SystemoutJSON = None, radr_Systemerr = '''',
       radr_SystemerrJSON = None, radr_Err = '''', radr_Code = '''', radr_TimeSeconds = 0,
       radr_Attributes = None, radr_Request = None \<rparr>"

text \<open>Lines 82-114: the switch over the code name; \<open>None\<close> is its default case.\<close>

definition parse_Code :: "string \<Rightarrow> Code option" where
  "parse_Code c =
     (if c = ''Access-Request'' then Some CodeAccessRequest
      else if c = ''Access-Accept'' then Some CodeAccessAccept
      else if c = ''Access-Reject'' then Some CodeAccessReject
      else if c = ''Accounting-Request'' then Some CodeAccountingRequest
      else if c = ''Accounting-Response'' then Some CodeAccountingResponse
      else if c = ''Access-Challenge'' then Some CodeAccessChallenge
      else if c = ''Status-Server'' then Some CodeStatusServer
      else if c = ''Status-Client'' then Some CodeStatusClient
      else if c = ''Disconnect-Request'' then Some CodeDisconnectRequest
      else if c = ''Disconnect-ACK'' then Some CodeDisconnectACK
      else if c = ''Disconnect-NAK'' then Some CodeDisconnectNAK
      else if c = ''CoA-Request'' then Some CodeCoARequest
      else if c = ''CoA-ACK'' then Some CodeCoAACK
      else if c = ''CoA-NAK'' then Some CodeCoANAK
      else None)"

text \<open>
  Lines 120-125: the loop over the attribute map. \<open>Inl\<close> carries the name of the
  attribute at which \<^verbatim>\<open>addAttribute\<close> returned an error, and that error; the loop
  body returns from \<^verbatim>\<open>Run\<close> there.
\<close>

fun addAttributes :: "'s rad_lib \<Rightarrow> Packet \<Rightarrow> (string \<times> string) list \<Rightarrow> (string \<times> string) + Packet" where
  "addAttributes lib packet [] = Inr packet"
| "addAttributes lib packet ((attrName, attrValue) # rest) =
     (case addAttribute lib packet attrName attrValue of
        Inl err \<Rightarrow> Inl (attrName, err)
      | Inr packet' \<Rightarrow> addAttributes lib packet' rest)"

text \<open>
  Lines 147-180: the result is assembled from the response. The loop that lists the
  attributes in \<^verbatim>\<open>Systemout\<close> ranges over a map; the model lists them in the order
  in which they were stored.
\<close>

definition rad_store :: "string \<Rightarrow> string \<Rightarrow> (string \<times> string) list \<Rightarrow> (string \<times> string) list" where
  "rad_store k v m = (if v \<noteq> '''' then m @ [(k, v)] else m)"

definition rad_assemble :: "rad_env \<Rightarrow> rad_Response \<Rightarrow> rad_Result \<Rightarrow> rad_event list \<Rightarrow> rad_Result" where
  "rad_assemble env response result done =
     (let result = result\<lparr> radr_Code := resp_Code_String response \<rparr>;
          attrs = [];
          attrs = rad_store ''User-Name'' (resp_UserName response) attrs;
          attrs = rad_store ''Reply-Message'' (resp_ReplyMessage response) attrs;
          attrs = rad_store ''Acct-Session-Id'' (resp_AcctSessionID response) attrs;
          result = result\<lparr> radr_Attributes := Some attrs \<rparr>;
          result = result\<lparr> radr_Systemout := ''RADIUS Response: '' @ radr_Code result \<rparr>;
          result =
            (if length attrs > 0 then
               result\<lparr> radr_Systemout :=
                 foldl (\<lambda>out (k, v). out @ newline @ ''  '' @ k @ '': '' @ v)
                   (radr_Systemout result @ newline @ ''Attributes:'') attrs \<rparr>
             else result);
          result = result\<lparr> radr_SystemoutJSON := Some (radr_Code result, attrs) \<rparr>
      in result\<lparr> radr_TimeSeconds := Seconds (rad_Since env done) \<rparr>)"

text \<open>
  \<^verbatim>\<open>Run\<close> returns \<^verbatim>\<open>(nil, err)\<close>, modelled as \<open>Inl err\<close>, or
  \<^verbatim>\<open>(result, nil)\<close>, modelled as \<open>Inr result\<close>; the second component lists the
  network exchanges the invocation performed, in order.
\<close>

definition rad_Run :: "'s rad_lib \<Rightarrow> rad_env \<Rightarrow> Ctx \<Rightarrow> 's \<Rightarrow> (string + rad_Result) \<times> rad_event list" where
  "rad_Run lib env ctx0 step =
     (case rad_Decode lib step of
        Inl err \<Rightarrow> (Inl err, [])
      | Inr e \<Rightarrow>
          (let e = rad_defaults e;
               result = rad_Result0
           in case parse_Code (rad_Code e) of
                None \<Rightarrow> (Inl (''unsupported RADIUS code: '' @ rad_Code e), [])
              | Some code \<Rightarrow>
                  (let packet = New code (bytes_of (rad_Secret e))
                   in case addAttributes lib packet (rad_Attributes e) of
                        Inl (attrName, err) \<Rightarrow>
                          (Inr (result\<lparr> radr_Err :=
                                  ''failed to add attribute '' @ attrName @ '': '' @ err \<rparr>), [])
                      | Inr packet \<Rightarrow>
                          (let result = result\<lparr> radr_Request := Some
                                 \<lparr> req_server = rad_Server e, req_code = rad_Code e,
                                   req_attributes = rad_Attributes e \<rparr> \<rparr>;
                               ctx = WithTimeout ctx0 (timeout_of (rad_Timeout e));
                               done = [rad_Exchanged ctx packet (rad_Server e)]
                           in case Exchange env ctx packet (rad_Server e) of
                                Inl err \<Rightarrow>
                                  (Inr (result\<lparr> radr_Err := err,
                                         radr_TimeSeconds := Seconds (rad_Since env done) \<rparr>), done)
                              | Inr response \<Rightarrow>
                                  (Inr (rad_assemble env response result done), done)))))"

section \<open>Notions used in the statements\<close>

text \<open>The record type names as the specification lists them.\<close>

definition spec_qtype_table :: "string list" where
  "spec_qtype_table =
     [''A'', ''AAAA'', ''MX'', ''TXT'', ''CNAME'', ''NS'', ''PTR'', ''SOA'', ''SRV'', ''CAA'', ''ANY'']"

text \<open>
  A DNS result reflects a response and a round trip time: its response code and its
  message tree are those of the response, and its human-readable output starts with the
  summary that reports this response code and this round trip time.
\<close>

definition dns_reflects :: "'s dns_lib \<Rightarrow> dns_Executor \<Rightarrow> dns_Result \<Rightarrow> Msg \<Rightarrow> int \<Rightarrow> bool" where
  "dns_reflects lib e r response rtt =
     (dnsr_RCode r = RcodeToString lib (m_Rcode response)
      \<and> dnsMessageToJSON lib response = (case dnsr_Message r of None \<Rightarrow> Inl [] | Some j \<Rightarrow> Inr j)
      \<and> (let s = dns_summary lib e (RcodeToString lib (m_Rcode response)) rtt
         in take (length s) (dnsr_Systemout r) = s))"

text \<open>The packet code names as the specification lists them.\<close>

definition spec_code_names :: "string list" where
  "spec_code_names =
     [''Access-Request'', ''Access-Accept'', ''Access-Reject'', ''Access-Challenge'',
      ''Accounting-Request'', ''Accounting-Response'', ''Status-Server'', ''Status-Client'',
      ''Disconnect-Request'', ''Disconnect-ACK'', ''Disconnect-NAK'',
      ''CoA-Request'', ''CoA-ACK'', ''CoA-NAK'']"

text \<open>
  The supported attribute names by value kind: raw strings, addresses, integers, and
  enumerations, each with its closed vocabulary.
\<close>

definition spec_string_attributes :: "string list" where
  "spec_string_attributes =
     [''User-Name'', ''User-Password'', ''Filter-Id'', ''Reply-Message'', ''Callback-Number'',
      ''Callback-Id'', ''Framed-Route'', ''State'', ''Class'', ''Called-Station-Id'',
      ''Calling-Station-Id'', ''NAS-Identifier'', ''Proxy-State'', ''Login-LAT-Service'',
      ''Login-LAT-Node'', ''Login-LAT-Group'', ''Framed-AppleTalk-Zone'', ''Acct-Session-Id'',
      ''Acct-Multi-Session-Id'']"

definition spec_address_attributes :: "string list" where
  "spec_address_attributes =
     [''NAS-IP-Address'', ''Framed-IP-Address'', ''Framed-IP-Netmask'', ''Framed-IPX-Network'']"

definition spec_integer_attributes :: "string list" where
  "spec_integer_attributes =
     [''NAS-Port'', ''Framed-MTU'', ''Session-Timeout'', ''Idle-Timeout'', ''Acct-Session-Time'',
      ''Acct-Input-Octets'', ''Acct-Output-Octets'', ''Acct-Input-Packets'',
      ''Acct-Output-Packets'', ''Acct-Link-Count'']"

definition spec_enum_attributes :: "(string \<times> string list) list" where
  "spec_enum_attributes =
     [(''Service-Type'',
         [''Login-User'', ''Framed-User'', ''Callback-Login-User'', ''Callback-Framed-User'',
          ''Outbound-User'', ''Administrative-User'', ''NAS-Prompt-User'', ''Call-Check-User'',
          ''Callback-Administrative-User'']),
      (''Framed-Protocol'',
         [''PPP'', ''SLIP'', ''ARAP'', ''Gandalf'', ''Xylogics'', ''X.75-Synchronous'']),
      (''Framed-Routing'', [''None'', ''Broadcast'', ''Listen'', ''Broadcast-Listen'']),
      (''Termination-Action'', [''Default'', ''RADIUS-Request'']),
      (''Acct-Status-Type'',
         [''Start'', ''Stop'', ''Interim-Update'', ''Accounting-On'', ''Accounting-Off'']),
      (''Acct-Authentic'', [''RADIUS'', ''Local'', ''Remote'']),
      (''Acct-Terminate-Cause'',
         [''User-Request'', ''Lost-Carrier'', ''Lost-Service'', ''Idle-Timeout'',
          ''Session-Timeout'', ''Admin-Reset'', ''Admin-Reboot'', ''Port-Error'', ''NAS-Error'',
          ''NAS-Request'', ''NAS-Reboot'', ''Port-Unneeded'', ''Port-Preempted'',
          ''Port-Suspended'', ''Service-Unavailable'', ''Callback'', ''User-Error'',
          ''Host-Request''])]"

text \<open>
  An attribute that cannot be encoded: an enumerated attribute whose value is outside its
  vocabulary, an integer attribute whose value \<^verbatim>\<open>strconv.Atoi\<close> rejects, or a name
  that is not supported.
\<close>

definition bad_attribute :: "'s rad_lib \<Rightarrow> string \<Rightarrow> string \<Rightarrow> bool" where
  "bad_attribute lib name v =
     (case map_of spec_enum_attributes name of
        Some vocabulary \<Rightarrow> v \<notin> set vocabulary
      | None \<Rightarrow>
          if name \<in> set spec_integer_attributes then Atoi lib v = None
          else name \<notin> set spec_string_attributes \<and> name \<notin> set spec_address_attributes)"


section \<open>Concrete libraries, worlds and steps\<close>

text \<open>
  The instances at which the theorems below are exercised. A step descriptor is here its
  own decoding outcome, so both a descriptor that decodes and one that does not can be
  written down.
\<close>

text \<open>
  \<^verbatim>\<open>strconv.Atoi\<close> on a 64-bit platform: an optional sign, then one or more decimal
  digits, the value within the range of int64.
\<close>

fun digits_value :: "string \<Rightarrow> int \<Rightarrow> int option" where
  "digits_value [] acc = Some acc"
| "digits_value (c # cs) acc =
     (if (48::nat) \<le> of_char c \<and> of_char c \<le> (57::nat)
      then digits_value cs (acc * 10 + (of_char c - 48))
      else None)"

definition go_Atoi :: "string \<Rightarrow> int option" where
  "go_Atoi s =
     (let neg = (s \<noteq> [] \<and> hd s = CHR ''-'');
          ds = (if s \<noteq> [] \<and> (hd s = CHR ''-'' \<or> hd s = CHR ''+'') then tl s else s)
      in if ds = [] then None
         else case digits_value ds 0 of
                None \<Rightarrow> None
              | Some n \<Rightarrow>
                  (let v = (if neg then - n else n)
                   in if - (2 ^ 63) \<le> v \<and> v < 2 ^ 63 then Some v else None))"

definition ex_rad_lib :: "(string + rad_Executor) rad_lib" where
  "ex_rad_lib = \<lparr> rad_Decode = (\<lambda>s. s), Atoi = go_Atoi \<rparr>"

definition ex_rad_cfg :: "string \<Rightarrow> (string \<times> string) list \<Rightarrow> rad_Executor" where
  "ex_rad_cfg code attrs =
     \<lparr> rad_Server = '''', rad_Secret = '''', rad_Code = code, rad_Timeout = 0,
       rad_Attributes = attrs \<rparr>"

definition ex_rad_step :: "string \<Rightarrow> (string \<times> string) list \<Rightarrow> string + rad_Executor" where
  "ex_rad_step code attrs = Inr (ex_rad_cfg code attrs)"

text \<open>
  Two worlds for the RADIUS executor: no server answers and the exchange runs into the
  deadline, or a server accepts. In both, three milliseconds pass before the first
  exchange and each exchange takes its time.
\<close>

definition ex_rad_down :: rad_env where
  "ex_rad_down =
     \<lparr> Exchange = (\<lambda>ctx packet server. Inl ''context deadline exceeded''),
       rad_Since = (\<lambda>done. 3000000 + 5000000000 * int (length done)) \<rparr>"

definition ex_rad_up :: rad_env where
  "ex_rad_up =
     \<lparr> Exchange = (\<lambda>ctx packet server. Inr
          \<lparr> resp_Code_String = ''Access-Accept'', resp_UserName = '''',
            resp_ReplyMessage = ''welcome'', resp_AcctSessionID = '''' \<rparr>),
       rad_Since = (\<lambda>done. 3000000 + 20000000 * int (length done)) \<rparr>"

definition ex_dns_lib :: "(string + dns_Executor) dns_lib" where
  "ex_dns_lib =
     \<lparr> dns_Decode = (\<lambda>s. s),
       Fqdn = (\<lambda>s. if s \<noteq> [] \<and> last s = CHR ''.'' then s else s @ ''.''),
       RcodeToString = (\<lambda>r. if r = 0 then ''NOERROR'' else if r = 2 then ''SERVFAIL'' else ''''),
       OpcodeToString = (\<lambda>c. if c = 0 then ''QUERY'' else ''''),
       TypeToString = (\<lambda>t. if t = 1 then ''A'' else ''''),
       ClassToString = (\<lambda>c. if c = 1 then ''IN'' else ''''),
       RR_String = (\<lambda>rr. h_Name (Header rr)),
       IP_String = (\<lambda>ip. ''93.184.216.34''),
       Duration_String = (\<lambda>d. if d = 7000000 then ''7ms'' else if d = 9000000 then ''9ms'' else ''?'') \<rparr>"

definition ex_dns_cfg :: "string \<Rightarrow> string \<Rightarrow> dns_Executor" where
  "ex_dns_cfg server qtype =
     \<lparr> dns_Server = server, dns_Query = ''example.com'', dns_QType = qtype, dns_Timeout = 0 \<rparr>"

definition ex_dns_step :: "string \<Rightarrow> string \<Rightarrow> string + dns_Executor" where
  "ex_dns_step server qtype = Inr (ex_dns_cfg server qtype)"

text \<open>
  A world for the DNS executor is given by the outcome of the UDP exchange and of the TCP
  exchange. One millisecond passes before the first exchange and ten more with each.
\<close>

definition ex_dns_env :: "string + (Msg \<times> int) \<Rightarrow> string + (Msg \<times> int) \<Rightarrow> dns_env" where
  "ex_dns_env udp tcp =
     \<lparr> new_Id = (\<lambda>n. of_nat (n + 1)),
       ExchangeContext = (\<lambda>net ctx m server. if net = ''udp'' then udp else tcp),
       dns_Since = (\<lambda>done. 1000000 + 10000000 * int (length done)) \<rparr>"

definition ex_udp_truncated :: Msg where
  "ex_udp_truncated = new_Msg\<lparr> m_Response := True, m_Truncated := True \<rparr>"

definition ex_tcp_truncated :: Msg where
  "ex_tcp_truncated = new_Msg\<lparr> m_Response := True, m_Truncated := True, m_Rcode := 2 \<rparr>"

definition ex_complete :: Msg where
  "ex_complete =
     new_Msg\<lparr> m_Response := True,
       m_Answer := [RR_A \<lparr> h_Name = ''example.com.'', h_Rrtype = 1, h_Class = 1, h_Ttl = 3600 \<rparr>
                      [93, 184, 216, 34]] \<rparr>"

text \<open>
  The context both exchanges of the example steps run under, the two exchanges, and three
  worlds: the server answers in full over UDP; the UDP answer is truncated and so is the
  TCP answer; the UDP answer is truncated and the TCP answer is complete.
\<close>

definition ex_dns_ctx :: Ctx where
  "ex_dns_ctx = WithTimeout Background (timeout_of 5)"

definition ex_dns_udp :: "dns_env \<Rightarrow> dns_Executor \<Rightarrow> dns_event" where
  "ex_dns_udp env cfg =
     dns_Exchanged ''udp'' ex_dns_ctx (dns_question ex_dns_lib env 0 (dns_defaults cfg) TypeA)
       (dns_Server cfg)"

definition ex_dns_tcp :: "dns_env \<Rightarrow> dns_Executor \<Rightarrow> dns_event" where
  "ex_dns_tcp env cfg =
     dns_Exchanged ''tcp'' ex_dns_ctx (dns_question ex_dns_lib env 1 (dns_defaults cfg) TypeA)
       (dns_Server cfg)"

definition ex_answered :: dns_env where
  "ex_answered = ex_dns_env (Inr (ex_complete, 7000000)) (Inl ''unused'')"

definition ex_both_truncated :: dns_env where
  "ex_both_truncated =
     ex_dns_env (Inr (ex_udp_truncated, 7000000)) (Inr (ex_tcp_truncated, 9000000))"

definition ex_repaired :: dns_env where
  "ex_repaired = ex_dns_env (Inr (ex_udp_truncated, 7000000)) (Inr (ex_complete, 9000000))"

section \<open>Properties of the DNS executor\<close>

subsection \<open>Auxiliary facts\<close>

lemma dnsMessageToJSON_Inr: "\<exists>j. dnsMessageToJSON lib msg = Inr j"
  by (simp add: dnsMessageToJSON_def Let_def)

lemma dns_defaults_simps:
  "dns_Server (dns_defaults e) = dns_Server e"
  "dns_Query (dns_defaults e) = dns_Query e"
  "dns_QType (dns_defaults e) = (if dns_QType e = '''' then ''A'' else dns_QType e)"
  "dns_Timeout (dns_defaults e) = (if dns_Timeout e = 0 then 5 else dns_Timeout e)"
  by (simp_all add: dns_defaults_def Let_def)

lemma stringToQType_table:
  "(\<exists>t. stringToQType q = Inr t) \<longleftrightarrow> q \<in> set spec_qtype_table"
  by (simp add: stringToQType_def spec_qtype_table_def)

lemma stringToQType_unsupported:
  "q \<notin> set spec_qtype_table \<Longrightarrow> stringToQType q = Inl (''unsupported DNS record type: '' @ q)"
  by (simp add: stringToQType_def spec_qtype_table_def)

lemma stringToQType_A: "stringToQType ''A'' = Inr TypeA"
  by (simp add: stringToQType_def)

lemma dns_retry_keeps:
  assumes "dns_retry lib env ctx e t u urtt result tr = (resp, rtt, result', tr')"
  shows "dnsr_Query result' = dnsr_Query result \<and> dnsr_QType result' = dnsr_QType result
       \<and> dnsr_Server result' = dnsr_Server result"
  using assms by (auto simp: dns_retry_def Let_def split: if_splits sum.splits prod.splits)

lemma dns_retry_outcomes:
  assumes "m_Truncated u"
  shows "dns_retry lib env c e t u urtt result tr =
    (case ExchangeContext env ''tcp'' c (dns_question lib env 1 e t) (dns_Server e) of
       Inl tcpErr \<Rightarrow>
         (u, urtt, result\<lparr> dnsr_Err := ''UDP response truncated, TCP retry failed: '' @ tcpErr \<rparr>,
          tr @ [dns_Exchanged ''tcp'' c (dns_question lib env 1 e t) (dns_Server e)])
     | Inr (v, vrtt) \<Rightarrow>
         if m_Truncated v then
           (u, urtt, result\<lparr> dnsr_Err :=
              ''UDP response truncated, TCP retry also returned truncated response'' \<rparr>,
            tr @ [dns_Exchanged ''tcp'' c (dns_question lib env 1 e t) (dns_Server e)])
         else (v, vrtt, result, tr @ [dns_Exchanged ''tcp'' c (dns_question lib env 1 e t) (dns_Server e)]))"
  using assms by (simp add: dns_retry_def Let_def split: sum.splits prod.splits)

lemma dns_retry_complete:
  assumes "\<not> m_Truncated u"
  shows "dns_retry lib env c e t u urtt result tr = (u, urtt, result, tr)"
  using assms by (simp add: dns_retry_def)

lemma dns_assemble_keeps:
  "dnsr_Query (dns_assemble lib env e resp rtt result tr) = dnsr_Query result
   \<and> dnsr_QType (dns_assemble lib env e resp rtt result tr) = dnsr_QType result
   \<and> dnsr_Server (dns_assemble lib env e resp rtt result tr) = dnsr_Server result"
  by (simp add: dns_assemble_def Let_def split: sum.splits)

lemma dns_assemble_Err:
  "dnsr_Err (dns_assemble lib env e resp rtt result tr) = dnsr_Err result"
  using dnsMessageToJSON_Inr[of lib resp]
  by (auto simp: dns_assemble_def Let_def split: sum.splits)

lemma dns_assemble_Time:
  "dnsr_TimeSeconds (dns_assemble lib env e resp rtt result tr) = Seconds (dns_Since env tr)"
  by (auto simp: dns_assemble_def Let_def split: sum.splits)

lemma foldl_append_prefix:
  "take (length p) init = p \<Longrightarrow> length p \<le> length init \<Longrightarrow>
   take (length p) (foldl (\<lambda>out x. out @ g x) init xs) = p"
  by (induction xs arbitrary: init) simp_all

lemma dns_assemble_reflects:
  "dns_reflects lib e (dns_assemble lib env e response rtt result tr) response rtt"
proof -
  obtain j where j: "dnsMessageToJSON lib response = Inr j"
    using dnsMessageToJSON_Inr by blast
  define s where "s = dns_summary lib e (RcodeToString lib (m_Rcode response)) rtt"
  have "take (length s)
          (foldl (\<lambda>out rr. out @ (''  '' @ RR_String lib rr @ newline))
             (s @ (''Answers:'' @ newline)) (m_Answer response)) = s"
    by (rule foldl_append_prefix) simp_all
  with j show ?thesis
    by (simp add: dns_reflects_def dns_assemble_def Let_def s_def)
qed

text \<open>The three ways an invocation that decoded and has a server proceeds.\<close>

lemma dns_Run_unsupported:
  assumes "dns_Decode lib step = Inr e0" and "dns_Server e0 \<noteq> []"
    and "stringToQType (dns_QType (dns_defaults e0)) = Inl err"
  shows "dns_Run lib env ctx step =
     (Inr ((dns_Result0 (dns_defaults e0))\<lparr> dnsr_Err := err,
          dnsr_TimeSeconds := Seconds (dns_Since env []) \<rparr>), [])"
  using assms by (simp add: dns_Run_def Let_def)

lemma dns_Run_unanswered:
  assumes "dns_Decode lib step = Inr e0" and "dns_Server e0 \<noteq> []"
    and "stringToQType (dns_QType (dns_defaults e0)) = Inr t"
    and "ExchangeContext env ''udp'' (WithTimeout ctx (timeout_of (dns_Timeout (dns_defaults e0))))
           (dns_question lib env 0 (dns_defaults e0) t) (dns_Server (dns_defaults e0)) = Inl err"
  shows "dns_Run lib env ctx step =
     (Inr ((dns_Result0 (dns_defaults e0))\<lparr> dnsr_Err := err,
          dnsr_TimeSeconds := Seconds (dns_Since env
            [dns_Exchanged ''udp'' (WithTimeout ctx (timeout_of (dns_Timeout (dns_defaults e0))))
                (dns_question lib env 0 (dns_defaults e0) t) (dns_Server (dns_defaults e0))]) \<rparr>),
      [dns_Exchanged ''udp'' (WithTimeout ctx (timeout_of (dns_Timeout (dns_defaults e0))))
                (dns_question lib env 0 (dns_defaults e0) t) (dns_Server (dns_defaults e0))])"
  using assms by (simp add: dns_Run_def Let_def)

lemma dns_Run_answered:
  assumes "dns_Decode lib step = Inr e0" and "dns_Server e0 \<noteq> []"
    and "stringToQType (dns_QType (dns_defaults e0)) = Inr t"
    and "ExchangeContext env ''udp'' (WithTimeout ctx (timeout_of (dns_Timeout (dns_defaults e0))))
           (dns_question lib env 0 (dns_defaults e0) t) (dns_Server (dns_defaults e0)) = Inr (u, urtt)"
  shows "dns_Run lib env ctx step =
     (case dns_retry lib env (WithTimeout ctx (timeout_of (dns_Timeout (dns_defaults e0))))
             (dns_defaults e0) t u urtt (dns_Result0 (dns_defaults e0))
             [dns_Exchanged ''udp'' (WithTimeout ctx (timeout_of (dns_Timeout (dns_defaults e0))))
                (dns_question lib env 0 (dns_defaults e0) t) (dns_Server (dns_defaults e0))] of
        (response, rtt, result, tr) \<Rightarrow>
          (Inr (dns_assemble lib env (dns_defaults e0) response rtt result tr), tr))"
  using assms by (simp add: dns_Run_def Let_def)

lemma dns_truncated_outcomes:
  assumes dec: "dns_Decode lib step = Inr e0" and srv: "dns_Server e0 \<noteq> ''''"
    and e: "e = dns_defaults e0" and t: "stringToQType (dns_QType e) = Inr t"
    and c: "c = WithTimeout ctx (timeout_of (dns_Timeout e))"
    and udp: "ExchangeContext env ''udp'' c (dns_question lib env 0 e t) (dns_Server e) = Inr (u, urtt)"
    and trunc: "m_Truncated u"
  shows "\<exists>r. dns_Run lib env ctx step =
           (Inr r, [dns_Exchanged ''udp'' c (dns_question lib env 0 e t) (dns_Server e),
                    dns_Exchanged ''tcp'' c (dns_question lib env 1 e t) (dns_Server e)])
       \<and> (case ExchangeContext env ''tcp'' c (dns_question lib env 1 e t) (dns_Server e) of
            Inl tcpErr \<Rightarrow>
              dnsr_Err r = ''UDP response truncated, TCP retry failed: '' @ tcpErr
              \<and> dns_reflects lib e r u urtt
          | Inr (v, vrtt) \<Rightarrow>
              if m_Truncated v then
                dnsr_Err r = ''UDP response truncated, TCP retry also returned truncated response''
                \<and> dns_reflects lib e r u urtt
              else dnsr_Err r = '''' \<and> dns_reflects lib e r v vrtt)"
proof -
  have run: "dns_Run lib env ctx step =
     (case dns_retry lib env c e t u urtt (dns_Result0 e)
             [dns_Exchanged ''udp'' c (dns_question lib env 0 e t) (dns_Server e)] of
        (response, rtt, result, tr) \<Rightarrow> (Inr (dns_assemble lib env e response rtt result tr), tr))"
    using dns_Run_answered[OF dec, where env=env and ctx=ctx and t=t and u=u and urtt=urtt]
      srv t udp unfolding e c by (simp add: dns_defaults_simps)
  show ?thesis
    unfolding run dns_retry_outcomes[OF trunc]
    by (auto split: sum.splits prod.splits
        simp: dns_assemble_reflects dns_assemble_Err dns_Result0_def)
qed

text \<open>The example step with server 8.8.8.8:53 and no record type, as \<open>Run\<close> sees it.\<close>

lemma ex_dns_decoded:
  "dns_Decode ex_dns_lib (ex_dns_step server qtype) = Inr (ex_dns_cfg server qtype)"
  by (simp add: ex_dns_lib_def ex_dns_step_def)

lemma ex_dns_cfg_simps:
  "dns_Server (ex_dns_cfg server qtype) = server"
  "dns_Query (ex_dns_cfg server qtype) = ''example.com''"
  "dns_QType (ex_dns_cfg server qtype) = qtype"
  "dns_Timeout (ex_dns_cfg server qtype) = 0"
  by (simp_all add: ex_dns_cfg_def)

lemma ex_dns_env_simps:
  "ExchangeContext (ex_dns_env udp tcp) ''udp'' c m s = udp"
  "ExchangeContext (ex_dns_env udp tcp) ''tcp'' c m s = tcp"
  "dns_Since (ex_dns_env udp tcp) tr = 1000000 + 10000000 * int (length tr)"
  "new_Id (ex_dns_env udp tcp) n = of_nat (n + 1)"
  by (simp_all add: ex_dns_env_def)

subsection \<open>The claims about the DNS executor\<close>

text \<open>
  Claim C8. In the DNS executor, for every step descriptor whose server field is empty or
  absent (the decoded \<open>Server\<close> is the empty string), \<open>Run\<close> returns a non-nil error
  whose message is exactly "server is mandatory for DNS executor"; no result is produced
  and nothing is sent.
\<close>

theorem dns_missing_server:
  "dns_Decode lib step = Inr e \<Longrightarrow> dns_Server e = '''' \<Longrightarrow>
   dns_Run lib env ctx step = (Inl ''server is mandatory for DNS executor'', [])"
  by (simp add: dns_Run_def)

theorem dns_missing_server_witness:
  "dns_Decode ex_dns_lib (ex_dns_step '''' ''A'') = Inr (ex_dns_cfg '''' ''A'')
   \<and> dns_Server (ex_dns_cfg '''' ''A'') = ''''
   \<and> dns_Run ex_dns_lib (ex_dns_env (Inl ''unreachable'') (Inl ''unreachable'')) Background
        (ex_dns_step '''' ''A'') = (Inl ''server is mandatory for DNS executor'', [])"
proof -
  have s: "dns_Server (ex_dns_cfg '''' ''A'') = ''''"
    by (simp add: ex_dns_cfg_simps)
  from dns_missing_server[OF ex_dns_decoded s] ex_dns_decoded s show ?thesis
    by blast
qed

text \<open>
  Claim C10. Every result that the DNS executor's \<open>Run\<close> returns with a nil error, on
  success and on every soft-failure path, has its \<open>Query\<close>, \<open>QType\<close> and \<open>Server\<close>
  fields equal to the decoded configuration, the record type defaulted to "A".
\<close>

theorem dns_result_echoes_config:
  assumes "dns_Run lib env ctx step = (Inr r, tr)"
  shows "\<exists>e. dns_Decode lib step = Inr e
           \<and> dnsr_Query r = dns_Query e
           \<and> dnsr_QType r = (if dns_QType e = '''' then ''A'' else dns_QType e)
           \<and> dnsr_Server r = dns_Server e"
proof (cases "dns_Decode lib step")
  case (Inl err)
  with assms show ?thesis by (simp add: dns_Run_def)
next
  case (Inr e)
  show ?thesis
  proof (cases "stringToQType (dns_QType (dns_defaults e))")
    case (Inl err)
    with assms Inr show ?thesis
      by (auto simp: dns_Run_def Let_def dns_Result0_def dns_defaults_simps split: if_splits)
  next
    case t: (Inr t)
    with assms Inr show ?thesis
      by (auto simp: dns_Run_def Let_def dns_Result0_def dns_defaults_simps dns_assemble_keeps
          split: if_splits sum.splits prod.splits dest!: dns_retry_keeps)
  qed
qed

theorem dns_result_echoes_config_witness:
  "dns_Run ex_dns_lib (ex_dns_env (Inl ''i/o timeout'') (Inl ''unused'')) Background
       (ex_dns_step ''8.8.8.8:53'' '''')
     = (Inr ((dns_Result0 (dns_defaults (ex_dns_cfg ''8.8.8.8:53'' '''')))
               \<lparr> dnsr_Err := ''i/o timeout'', dnsr_TimeSeconds := Seconds 11000000 \<rparr>),
        [dns_Exchanged ''udp'' (WithTimeout Background (timeout_of 5))
           (dns_question ex_dns_lib (ex_dns_env (Inl ''i/o timeout'') (Inl ''unused'')) 0
              (dns_defaults (ex_dns_cfg ''8.8.8.8:53'' '''')) TypeA)
           ''8.8.8.8:53''])
   \<and> dnsr_Query ((dns_Result0 (dns_defaults (ex_dns_cfg ''8.8.8.8:53'' '''')))
               \<lparr> dnsr_Err := ''i/o timeout'', dnsr_TimeSeconds := Seconds 11000000 \<rparr>)
       = ''example.com''
   \<and> dnsr_QType ((dns_Result0 (dns_defaults (ex_dns_cfg ''8.8.8.8:53'' '''')))
               \<lparr> dnsr_Err := ''i/o timeout'', dnsr_TimeSeconds := Seconds 11000000 \<rparr>)
       = ''A''
   \<and> dnsr_Server ((dns_Result0 (dns_defaults (ex_dns_cfg ''8.8.8.8:53'' '''')))
               \<lparr> dnsr_Err := ''i/o timeout'', dnsr_TimeSeconds := Seconds 11000000 \<rparr>)
       = ''8.8.8.8:53''"
proof -
  let ?env = "ex_dns_env (Inl ''i/o timeout'') (Inl ''unused'')"
  let ?cfg = "ex_dns_cfg ''8.8.8.8:53'' ''''"
  have s: "dns_Server ?cfg \<noteq> []" by (simp add: ex_dns_cfg_simps)
  have t: "stringToQType (dns_QType (dns_defaults ?cfg)) = Inr TypeA"
    by (simp add: dns_defaults_simps ex_dns_cfg_simps stringToQType_A)
  have run: "dns_Run ex_dns_lib ?env Background (ex_dns_step ''8.8.8.8:53'' '''')
     = (Inr ((dns_Result0 (dns_defaults ?cfg))
               \<lparr> dnsr_Err := ''i/o timeout'', dnsr_TimeSeconds := Seconds 11000000 \<rparr>),
        [dns_Exchanged ''udp'' (WithTimeout Background (timeout_of 5))
           (dns_question ex_dns_lib ?env 0 (dns_defaults ?cfg) TypeA) ''8.8.8.8:53''])"
    using dns_Run_unanswered[OF ex_dns_decoded s t, where env="?env" and ctx=Background
        and err="''i/o timeout''"]
    by (simp add: ex_dns_env_simps dns_defaults_simps ex_dns_cfg_simps)
  from dns_result_echoes_config[OF run] ex_dns_decoded[of "''8.8.8.8:53''" "''''"] run
  show ?thesis
    by (simp add: ex_dns_cfg_simps)
qed

text \<open>
  Claim C7. In the DNS executor, the record type name is resolved against exactly the
  table of the eleven names A, AAAA, MX, TXT, CNAME, NS, PTR, SOA, SRV, CAA, ANY. When
  the name that is resolved (the record type of the step, "A" when the step gives none)
  is outside this table, \<open>Run\<close> returns a nil error and a result whose \<open>Err\<close> is not
  empty and names the unsupported type, and no network exchange is attempted.
\<close>

theorem dns_unsupported_qtype:
  "length spec_qtype_table = 11 \<and> distinct spec_qtype_table
   \<and> ((\<exists>t. stringToQType q = Inr t) \<longleftrightarrow> q \<in> set spec_qtype_table)
   \<and> (dns_Decode lib step = Inr e \<longrightarrow> dns_Server e \<noteq> '''' \<longrightarrow>
        dns_QType (dns_defaults e) \<notin> set spec_qtype_table \<longrightarrow>
        (\<exists>r. dns_Run lib env ctx step = (Inr r, [])
            \<and> dnsr_Err r = ''unsupported DNS record type: '' @ dns_QType (dns_defaults e)
            \<and> dnsr_Err r \<noteq> ''''))"
proof -
  have a: "length spec_qtype_table = 11" "distinct spec_qtype_table"
    by (simp_all add: spec_qtype_table_def)
  have b: "\<exists>r. dns_Run lib env ctx step = (Inr r, [])
            \<and> dnsr_Err r = ''unsupported DNS record type: '' @ dns_QType (dns_defaults e)
            \<and> dnsr_Err r \<noteq> ''''"
    if "dns_Decode lib step = Inr e" "dns_Server e \<noteq> ''''"
       "dns_QType (dns_defaults e) \<notin> set spec_qtype_table"
    using that stringToQType_unsupported[OF that(3)]
    by (simp add: dns_Run_def Let_def)
  from a b stringToQType_table show ?thesis by blast
qed

theorem dns_unsupported_qtype_witness:
  "dns_Decode ex_dns_lib (ex_dns_step ''8.8.8.8:53'' ''INVALID'')
     = Inr (ex_dns_cfg ''8.8.8.8:53'' ''INVALID'')
   \<and> dns_Server (ex_dns_cfg ''8.8.8.8:53'' ''INVALID'') \<noteq> ''''
   \<and> dns_QType (dns_defaults (ex_dns_cfg ''8.8.8.8:53'' ''INVALID'')) = ''INVALID''
   \<and> ''INVALID'' \<notin> set spec_qtype_table
   \<and> (\<exists>r. dns_Run ex_dns_lib (ex_dns_env (Inl ''unreachable'') (Inl ''unreachable'')) Background
             (ex_dns_step ''8.8.8.8:53'' ''INVALID'') = (Inr r, [])
         \<and> dnsr_Err r = ''unsupported DNS record type: INVALID'')
   \<and> ''CAA'' \<in> set spec_qtype_table
   \<and> (\<exists>t. stringToQType ''CAA'' = Inr t)"
proof -
  let ?e = "ex_dns_cfg ''8.8.8.8:53'' ''INVALID''"
  have s: "dns_Server ?e \<noteq> ''''" by (simp add: ex_dns_cfg_simps)
  have q: "dns_QType (dns_defaults ?e) = ''INVALID''"
    by (simp add: dns_defaults_simps ex_dns_cfg_simps)
  have n: "''INVALID'' \<notin> set spec_qtype_table" by (simp add: spec_qtype_table_def)
  have c: "''CAA'' \<in> set spec_qtype_table" by (simp add: spec_qtype_table_def)
  from dns_unsupported_qtype[of "''CAA''" ex_dns_lib "ex_dns_step ''8.8.8.8:53'' ''INVALID''" ?e
      "ex_dns_env (Inl ''unreachable'') (Inl ''unreachable'')" Background]
    ex_dns_decoded[of "''8.8.8.8:53''" "''INVALID''"] s n c
  show ?thesis unfolding q by auto
qed

text \<open>
  Claim C9. \<open>dnsMessageToJSON\<close> returns a nil error for every message, so the branch of
  \<open>Run\<close> that records "failed to convert DNS message to JSON" is never taken (assembling
  the result leaves \<open>Err\<close> as it was), and every invocation that receives a response to
  its UDP exchange yields a result whose \<open>Message\<close> is not nil and equal to its
  \<open>SystemoutJSON\<close>.
\<close>

theorem dns_conversion_never_fails:
  "(\<exists>j. dnsMessageToJSON lib msg = Inr j)
   \<and> dnsr_Err (dns_assemble lib env e resp rtt result tr) = dnsr_Err result
   \<and> (dns_Run lib env ctx step = (Inr r, dns_Exchanged net c m srv # rest) \<longrightarrow>
        ExchangeContext env net c m srv = Inr (u, urtt) \<longrightarrow>
        (\<exists>response j. dnsMessageToJSON lib response = Inr j
            \<and> dnsr_Message r = Some j \<and> dnsr_SystemoutJSON r = Some j))"
proof -
  have c: "\<exists>response j. dnsMessageToJSON lib response = Inr j
            \<and> dnsr_Message r = Some j \<and> dnsr_SystemoutJSON r = Some j"
    if run: "dns_Run lib env ctx step = (Inr r, dns_Exchanged net c m srv # rest)"
      and ex: "ExchangeContext env net c m srv = Inr (u, urtt)"
  proof -
    from run obtain e0 where dec: "dns_Decode lib step = Inr e0"
      by (cases "dns_Decode lib step") (auto simp: dns_Run_def)
    from run dec have srv: "dns_Server e0 \<noteq> []"
      by (auto simp: dns_Run_def split: if_splits)
    from run dec srv obtain t where t: "stringToQType (dns_QType (dns_defaults e0)) = Inr t"
      by (cases "stringToQType (dns_QType (dns_defaults e0))") (auto simp: dns_Run_def Let_def)
    define e where "e = dns_defaults e0"
    define c' where "c' = WithTimeout ctx (timeout_of (dns_Timeout e))"
    define m' where "m' = dns_question lib env 0 e t"
    define ev where "ev = dns_Exchanged ''udp'' c' m' (dns_Server e)"
    show ?thesis
    proof (cases "ExchangeContext env ''udp'' c' m' (dns_Server e)")
      case (Inl err)
      with run dec srv t have "dns_Exchanged net c m srv # rest = [ev]"
        using dns_Run_unanswered[OF dec srv t, where env=env and ctx=ctx and err=err]
        by (simp add: e_def c'_def m'_def ev_def)
      with Inl ex show ?thesis by (simp add: ev_def)
    next
      case (Inr p)
      obtain v vrtt where p: "p = (v, vrtt)" by (cases p)
      obtain resp rtt result tr where
        retry: "dns_retry lib env c' e t v vrtt (dns_Result0 e) [ev] = (resp, rtt, result, tr)"
        by (metis prod_cases4)
      from Inr p have "dns_Run lib env ctx step = (Inr (dns_assemble lib env e resp rtt result tr), tr)"
        using dns_Run_answered[OF dec srv t, where env=env and ctx=ctx and u=v and urtt=vrtt] retry
        by (simp add: e_def c'_def m'_def ev_def)
      with run have r: "r = dns_assemble lib env e resp rtt result tr" by auto
      obtain j where j: "dnsMessageToJSON lib resp = Inr j"
        using dnsMessageToJSON_Inr by blast
      with r have "dnsr_Message r = Some j \<and> dnsr_SystemoutJSON r = Some j"
        by (simp add: dns_assemble_def Let_def)
      with j show ?thesis by blast
    qed
  qed
  from c dnsMessageToJSON_Inr[of lib msg] dns_assemble_Err[of lib env e resp rtt result tr]
  show ?thesis by blast
qed

theorem dns_conversion_never_fails_witness:
  "dns_Run ex_dns_lib ex_answered Background (ex_dns_step ''8.8.8.8:53'' ''A'')
     = (Inr (dns_assemble ex_dns_lib ex_answered (dns_defaults (ex_dns_cfg ''8.8.8.8:53'' ''A''))
               ex_complete 7000000 (dns_Result0 (dns_defaults (ex_dns_cfg ''8.8.8.8:53'' ''A'')))
               [ex_dns_udp ex_answered (ex_dns_cfg ''8.8.8.8:53'' ''A'')]),
        [ex_dns_udp ex_answered (ex_dns_cfg ''8.8.8.8:53'' ''A'')])
   \<and> ExchangeContext ex_answered ''udp'' ex_dns_ctx
        (dns_question ex_dns_lib ex_answered 0 (dns_defaults (ex_dns_cfg ''8.8.8.8:53'' ''A'')) TypeA)
        ''8.8.8.8:53'' = Inr (ex_complete, 7000000)
   \<and> (\<exists>response j. dnsMessageToJSON ex_dns_lib response = Inr j
         \<and> dnsr_Message (dns_assemble ex_dns_lib ex_answered
               (dns_defaults (ex_dns_cfg ''8.8.8.8:53'' ''A''))
               ex_complete 7000000 (dns_Result0 (dns_defaults (ex_dns_cfg ''8.8.8.8:53'' ''A'')))
               [ex_dns_udp ex_answered (ex_dns_cfg ''8.8.8.8:53'' ''A'')]) = Some j
         \<and> dnsr_SystemoutJSON (dns_assemble ex_dns_lib ex_answered
               (dns_defaults (ex_dns_cfg ''8.8.8.8:53'' ''A''))
               ex_complete 7000000 (dns_Result0 (dns_defaults (ex_dns_cfg ''8.8.8.8:53'' ''A'')))
               [ex_dns_udp ex_answered (ex_dns_cfg ''8.8.8.8:53'' ''A'')]) = Some j)"
proof -
  let ?cfg = "ex_dns_cfg ''8.8.8.8:53'' ''A''"
  let ?m = "dns_question ex_dns_lib ex_answered 0 (dns_defaults ?cfg) TypeA"
  have s: "dns_Server ?cfg \<noteq> []" by (simp add: ex_dns_cfg_simps)
  have t: "stringToQType (dns_QType (dns_defaults ?cfg)) = Inr TypeA"
    by (simp add: dns_defaults_simps ex_dns_cfg_simps stringToQType_A)
  have x: "ExchangeContext ex_answered ''udp'' ex_dns_ctx ?m ''8.8.8.8:53'' = Inr (ex_complete, 7000000)"
    by (simp add: ex_answered_def ex_dns_env_simps)
  have x': "ExchangeContext ex_answered ''udp''
       (WithTimeout Background (timeout_of (dns_Timeout (dns_defaults ?cfg)))) ?m
       (dns_Server (dns_defaults ?cfg)) = Inr (ex_complete, 7000000)"
    by (simp add: ex_answered_def ex_dns_env_simps)
  have n: "\<not> m_Truncated ex_complete" by (simp add: ex_complete_def new_Msg_def)
  have run: "dns_Run ex_dns_lib ex_answered Background (ex_dns_step ''8.8.8.8:53'' ''A'')
     = (Inr (dns_assemble ex_dns_lib ex_answered (dns_defaults ?cfg) ex_complete 7000000
               (dns_Result0 (dns_defaults ?cfg)) [ex_dns_udp ex_answered ?cfg]),
        [ex_dns_udp ex_answered ?cfg])"
    using dns_Run_answered[OF ex_dns_decoded s t x']
    by (simp add: dns_retry_complete[OF n] ex_dns_udp_def ex_dns_ctx_def dns_defaults_simps
        ex_dns_cfg_simps)
  have run': "dns_Run ex_dns_lib ex_answered Background (ex_dns_step ''8.8.8.8:53'' ''A'')
     = (Inr (dns_assemble ex_dns_lib ex_answered (dns_defaults ?cfg) ex_complete 7000000
               (dns_Result0 (dns_defaults ?cfg)) [ex_dns_udp ex_answered ?cfg]),
        dns_Exchanged ''udp'' ex_dns_ctx ?m ''8.8.8.8:53'' # [])"
    using run by (simp add: ex_dns_udp_def ex_dns_cfg_simps)
  from dns_conversion_never_fails[of ex_dns_lib ex_complete ex_answered "dns_defaults ?cfg"
      ex_complete 7000000 "dns_Result0 (dns_defaults ?cfg)" "[]" Background
      "ex_dns_step ''8.8.8.8:53'' ''A''" _ "''udp''" ex_dns_ctx ?m "''8.8.8.8:53''" "[]"
      ex_complete 7000000] run' x
  have "\<exists>response j. dnsMessageToJSON ex_dns_lib response = Inr j
         \<and> dnsr_Message (dns_assemble ex_dns_lib ex_answered (dns_defaults ?cfg)
               ex_complete 7000000 (dns_Result0 (dns_defaults ?cfg))
               [ex_dns_udp ex_answered ?cfg]) = Some j
         \<and> dnsr_SystemoutJSON (dns_assemble ex_dns_lib ex_answered (dns_defaults ?cfg)
               ex_complete 7000000 (dns_Result0 (dns_defaults ?cfg))
               [ex_dns_udp ex_answered ?cfg]) = Some j"
    by blast
  with run x show ?thesis by blast
qed

text \<open>
  Claim C2, as the specification states it: when the UDP response is truncated and the
  response to the TCP retry is truncated as well, the TCP response is still used. It is
  not: for the step that asks 8.8.8.8:53 for the A record of example.com, in the world
  where the UDP answer (NOERROR) and the TCP answer (SERVFAIL) are both truncated, the
  result reflects the UDP response and its round trip time, and does not reflect the TCP
  response.
\<close>

theorem dns_truncated_tcp_response_discarded:
  "m_Truncated ex_udp_truncated \<and> m_Truncated ex_tcp_truncated
   \<and> \<not> isl (fst (dns_Run ex_dns_lib ex_both_truncated Background (ex_dns_step ''8.8.8.8:53'' ''A'')))
   \<and> dnsr_Err (projr (fst (dns_Run ex_dns_lib ex_both_truncated Background
                              (ex_dns_step ''8.8.8.8:53'' ''A''))))
       = ''UDP response truncated, TCP retry also returned truncated response''
   \<and> dns_reflects ex_dns_lib (dns_defaults (ex_dns_cfg ''8.8.8.8:53'' ''A''))
        (projr (fst (dns_Run ex_dns_lib ex_both_truncated Background (ex_dns_step ''8.8.8.8:53'' ''A''))))
        ex_udp_truncated 7000000
   \<and> \<not> dns_reflects ex_dns_lib (dns_defaults (ex_dns_cfg ''8.8.8.8:53'' ''A''))
        (projr (fst (dns_Run ex_dns_lib ex_both_truncated Background (ex_dns_step ''8.8.8.8:53'' ''A''))))
        ex_tcp_truncated 9000000"
proof -
  let ?cfg = "ex_dns_cfg ''8.8.8.8:53'' ''A''"
  let ?env = ex_both_truncated
  have s: "dns_Server ?cfg \<noteq> []" by (simp add: ex_dns_cfg_simps)
  have t: "stringToQType (dns_QType (dns_defaults ?cfg)) = Inr TypeA"
    by (simp add: dns_defaults_simps ex_dns_cfg_simps stringToQType_A)
  have tu: "m_Truncated ex_udp_truncated" by (simp add: ex_udp_truncated_def)
  have tt: "m_Truncated ex_tcp_truncated" by (simp add: ex_tcp_truncated_def)
  have x: "ExchangeContext ?env ''udp'' c m srv = Inr (ex_udp_truncated, 7000000)" for c m srv
    by (simp add: ex_both_truncated_def ex_dns_env_simps)
  have y: "ExchangeContext ?env ''tcp'' c m srv = Inr (ex_tcp_truncated, 9000000)" for c m srv
    by (simp add: ex_both_truncated_def ex_dns_env_simps)
  from dns_truncated_outcomes[OF ex_dns_decoded s refl t refl x tu, of Background]
  obtain r tr where run: "dns_Run ex_dns_lib ?env Background (ex_dns_step ''8.8.8.8:53'' ''A'') = (Inr r, tr)"
    and err: "dnsr_Err r = ''UDP response truncated, TCP retry also returned truncated response''"
    and refl: "dns_reflects ex_dns_lib (dns_defaults ?cfg) r ex_udp_truncated 7000000"
    by (auto simp: y tt)
  from refl have "dnsr_RCode r = ''NOERROR''"
    by (simp add: dns_reflects_def ex_dns_lib_def ex_udp_truncated_def new_Msg_def)
  then have "\<not> dns_reflects ex_dns_lib (dns_defaults ?cfg) r ex_tcp_truncated 9000000"
    by (simp add: dns_reflects_def ex_dns_lib_def ex_tcp_truncated_def)
  with run err refl tu tt show ?thesis by simp
qed

text \<open>
  Claim C2, amended. In the DNS executor, when the UDP response has the truncation flag
  set, \<open>Run\<close> performs exactly one TCP retry, with a question message built anew (on a
  new message, with the next identifier drawn) and under the same context as the UDP
  exchange. If the TCP retry errors, the result reflects the truncated UDP response and
  \<open>Err\<close> describes the truncation and the retry failure. If the TCP response is itself
  truncated, \<open>Err\<close> notes the anomaly and the result reflects the truncated UDP
  response; the TCP response is discarded. If the TCP retry succeeds without truncation,
  \<open>Err\<close> is empty and the result reflects the TCP response and its round trip time.
\<close>

theorem dns_truncation_retry:
  assumes "dns_Decode lib step = Inr e0" and "dns_Server e0 \<noteq> ''''"
    and "e = dns_defaults e0" and "stringToQType (dns_QType e) = Inr t"
    and "c = WithTimeout ctx (timeout_of (dns_Timeout e))"
    and "ExchangeContext env ''udp'' c (dns_question lib env 0 e t) (dns_Server e) = Inr (u, urtt)"
    and "m_Truncated u"
  shows "\<exists>r. dns_Run lib env ctx step =
           (Inr r, [dns_Exchanged ''udp'' c (dns_question lib env 0 e t) (dns_Server e),
                    dns_Exchanged ''tcp'' c (dns_question lib env 1 e t) (dns_Server e)])
       \<and> dns_question lib env 1 e t = SetQuestion (new_Id env 1) new_Msg (Fqdn lib (dns_Query e)) t
       \<and> (case ExchangeContext env ''tcp'' c (dns_question lib env 1 e t) (dns_Server e) of
            Inl tcpErr \<Rightarrow>
              dnsr_Err r = ''UDP response truncated, TCP retry failed: '' @ tcpErr
              \<and> dns_reflects lib e r u urtt
          | Inr (v, vrtt) \<Rightarrow>
              if m_Truncated v then
                dnsr_Err r = ''UDP response truncated, TCP retry also returned truncated response''
                \<and> dns_reflects lib e r u urtt
              else dnsr_Err r = '''' \<and> dns_reflects lib e r v vrtt)"
proof -
  have "dns_question lib env 1 e t = SetQuestion (new_Id env 1) new_Msg (Fqdn lib (dns_Query e)) t"
    by (simp add: dns_question_def SetQuestion_def Let_def)
  with dns_truncated_outcomes[OF assms] show ?thesis by blast
qed

theorem dns_truncation_retry_witness:
  "dns_Decode ex_dns_lib (ex_dns_step ''8.8.8.8:53'' ''A'') = Inr (ex_dns_cfg ''8.8.8.8:53'' ''A'')
   \<and> dns_Server (ex_dns_cfg ''8.8.8.8:53'' ''A'') \<noteq> ''''
   \<and> stringToQType (dns_QType (dns_defaults (ex_dns_cfg ''8.8.8.8:53'' ''A''))) = Inr TypeA
   \<and> ExchangeContext ex_repaired ''udp'' ex_dns_ctx
        (dns_question ex_dns_lib ex_repaired 0 (dns_defaults (ex_dns_cfg ''8.8.8.8:53'' ''A'')) TypeA)
        ''8.8.8.8:53'' = Inr (ex_udp_truncated, 7000000)
   \<and> m_Truncated ex_udp_truncated
   \<and> ExchangeContext ex_repaired ''tcp'' ex_dns_ctx
        (dns_question ex_dns_lib ex_repaired 1 (dns_defaults (ex_dns_cfg ''8.8.8.8:53'' ''A'')) TypeA)
        ''8.8.8.8:53'' = Inr (ex_complete, 9000000)
   \<and> \<not> m_Truncated ex_complete
   \<and> (\<exists>r. dns_Run ex_dns_lib ex_repaired Background (ex_dns_step ''8.8.8.8:53'' ''A'')
             = (Inr r, [ex_dns_udp ex_repaired (ex_dns_cfg ''8.8.8.8:53'' ''A''),
                        ex_dns_tcp ex_repaired (ex_dns_cfg ''8.8.8.8:53'' ''A'')])
         \<and> dnsr_Err r = ''''
         \<and> dns_reflects ex_dns_lib (dns_defaults (ex_dns_cfg ''8.8.8.8:53'' ''A'')) r
              ex_complete 9000000)"
proof -
  let ?cfg = "ex_dns_cfg ''8.8.8.8:53'' ''A''"
  let ?env = ex_repaired
  have s: "dns_Server ?cfg \<noteq> []" by (simp add: ex_dns_cfg_simps)
  have t: "stringToQType (dns_QType (dns_defaults ?cfg)) = Inr TypeA"
    by (simp add: dns_defaults_simps ex_dns_cfg_simps stringToQType_A)
  have tu: "m_Truncated ex_udp_truncated" by (simp add: ex_udp_truncated_def)
  have tt: "\<not> m_Truncated ex_complete" by (simp add: ex_complete_def new_Msg_def)
  have x: "ExchangeContext ?env ''udp'' c m srv = Inr (ex_udp_truncated, 7000000)" for c m srv
    by (simp add: ex_repaired_def ex_dns_env_simps)
  have y: "ExchangeContext ?env ''tcp'' c m srv = Inr (ex_complete, 9000000)" for c m srv
    by (simp add: ex_repaired_def ex_dns_env_simps)
  from dns_truncation_retry[OF ex_dns_decoded s refl t refl x tu, of Background]
  have "\<exists>r. dns_Run ex_dns_lib ?env Background (ex_dns_step ''8.8.8.8:53'' ''A'')
             = (Inr r, [ex_dns_udp ?env ?cfg, ex_dns_tcp ?env ?cfg])
         \<and> dnsr_Err r = ''''
         \<and> dns_reflects ex_dns_lib (dns_defaults ?cfg) r ex_complete 9000000"
    by (auto simp: y tt ex_dns_udp_def ex_dns_tcp_def ex_dns_ctx_def dns_defaults_simps
        ex_dns_cfg_simps)
  with ex_dns_decoded[of "''8.8.8.8:53''" "''A''"] s t tu tt x y show ?thesis
    by blast
qed

section \<open>Properties of the RADIUS executor\<close>

subsection \<open>Auxiliary facts\<close>

lemma parse_Code_table: "parse_Code c = None \<longleftrightarrow> c \<notin> set spec_code_names"
  by (simp add: parse_Code_def spec_code_names_def)

lemma rad_defaults_simps:
  "rad_Server (rad_defaults e) = (if rad_Server e = '''' then ''localhost:1812'' else rad_Server e)"
  "rad_Secret (rad_defaults e) = (if rad_Secret e = '''' then ''secret'' else rad_Secret e)"
  "rad_Code (rad_defaults e) = (if rad_Code e = '''' then ''Access-Request'' else rad_Code e)"
  "rad_Timeout (rad_defaults e) = (if rad_Timeout e = 0 then 5 else rad_Timeout e)"
  "rad_Attributes (rad_defaults e) = rad_Attributes e"
  by (simp_all add: rad_defaults_def Let_def)

lemma isl_set_int: "isl (set_int lib setter name p v) = (Atoi lib v = None)"
  by (simp add: set_int_def split: option.splits)

lemma set_int_None:
  "Atoi lib v = None \<Longrightarrow> set_int lib setter name p v = Inl (''invalid '' @ name @ '' value: '' @ v)"
  by (simp add: set_int_def)

lemma isl_set_enum: "isl (set_enum table setter name p v) = (table v = None)"
  by (simp add: set_enum_def split: option.splits)

lemma set_enum_None:
  "table v = None \<Longrightarrow> set_enum table setter name p v = Inl (''unsupported '' @ name @ '': '' @ v)"
  by (simp add: set_enum_def)

text \<open>The switch of \<open>addAttribute\<close>, one value kind at a time.\<close>

lemma addAttribute_unsupported:
  "name \<notin> set spec_string_attributes \<Longrightarrow> name \<notin> set spec_address_attributes \<Longrightarrow>
   name \<notin> set spec_integer_attributes \<Longrightarrow> name \<notin> set (map fst spec_enum_attributes) \<Longrightarrow>
   addAttribute lib packet name v = Inl (''unsupported attribute: '' @ name)"
  by (simp add: addAttribute_def spec_string_attributes_def spec_address_attributes_def
      spec_integer_attributes_def spec_enum_attributes_def)

lemma addAttribute_address_all:
  "list_all (\<lambda>name. \<not> isl (addAttribute lib packet name v)) spec_address_attributes"
  by (simp add: spec_address_attributes_def addAttribute_def)

lemma addAttribute_string_all:
  "list_all (\<lambda>name. \<not> isl (addAttribute lib packet name v)) spec_string_attributes"
  by (simp add: spec_string_attributes_def addAttribute_def)

lemma addAttribute_integer_isl:
  "list_all (\<lambda>name. isl (addAttribute lib packet name v) = (Atoi lib v = None))
     spec_integer_attributes"
  by (simp add: spec_integer_attributes_def addAttribute_def isl_set_int)

lemma addAttribute_integer_err:
  "Atoi lib v = None \<Longrightarrow>
   list_all (\<lambda>name. addAttribute lib packet name v = Inl (''invalid '' @ name @ '' value: '' @ v))
     spec_integer_attributes"
  by (simp add: spec_integer_attributes_def addAttribute_def set_int_None)

lemma addAttribute_enum_isl:
  "list_all (\<lambda>(name, vocabulary). isl (addAttribute lib packet name v) = (v \<notin> set vocabulary))
     spec_enum_attributes"
  by (simp add: spec_enum_attributes_def addAttribute_def isl_set_enum serviceType_of_def
      protocol_of_def routing_of_def action_of_def status_of_def authentic_of_def cause_of_def)

lemma addAttribute_enum_err:
  "list_all (\<lambda>(name, vocabulary). v \<notin> set vocabulary \<longrightarrow>
       addAttribute lib packet name v = Inl (''unsupported '' @ name @ '': '' @ v))
     spec_enum_attributes"
  by (simp add: spec_enum_attributes_def addAttribute_def set_enum_def serviceType_of_def
      protocol_of_def routing_of_def action_of_def status_of_def authentic_of_def cause_of_def)

lemma bad_attribute_fails:
  assumes "bad_attribute lib n v"
  shows "\<exists>err. err \<noteq> [] \<and> (\<forall>p. addAttribute lib p n v = Inl err)"
proof (cases "map_of spec_enum_attributes n")
  case (Some vocabulary)
  then have "(n, vocabulary) \<in> set spec_enum_attributes"
    by (rule map_of_SomeD)
  moreover from assms Some have "v \<notin> set vocabulary"
    by (simp add: bad_attribute_def)
  ultimately have "\<forall>p. addAttribute lib p n v = Inl (''unsupported '' @ n @ '': '' @ v)"
    using addAttribute_enum_err[of v lib] by (auto simp: list_all_iff)
  then show ?thesis by blast
next
  case None
  then have ne: "n \<notin> set (map fst spec_enum_attributes)"
    by (simp add: map_of_eq_None_iff)
  show ?thesis
  proof (cases "n \<in> set spec_integer_attributes")
    case True
    with assms None have "Atoi lib v = None"
      by (simp add: bad_attribute_def)
    with True have "\<forall>p. addAttribute lib p n v = Inl (''invalid '' @ n @ '' value: '' @ v)"
      using addAttribute_integer_err[of lib v] by (auto simp: list_all_iff)
    then show ?thesis by blast
  next
    case False
    with assms None have "n \<notin> set spec_string_attributes" "n \<notin> set spec_address_attributes"
      by (simp_all add: bad_attribute_def)
    with False ne have "\<forall>p. addAttribute lib p n v = Inl (''unsupported attribute: '' @ n)"
      by (simp add: addAttribute_unsupported)
    then show ?thesis by blast
  qed
qed

lemma good_attribute_ok:
  assumes "\<not> bad_attribute lib n v"
  shows "\<not> isl (addAttribute lib p n v)"
proof (cases "map_of spec_enum_attributes n")
  case (Some vocabulary)
  then have "(n, vocabulary) \<in> set spec_enum_attributes"
    by (rule map_of_SomeD)
  moreover from assms Some have "v \<in> set vocabulary"
    by (simp add: bad_attribute_def)
  ultimately show ?thesis
    using addAttribute_enum_isl[of lib p v] by (auto simp: list_all_iff)
next
  case None
  show ?thesis
  proof (cases "n \<in> set spec_integer_attributes")
    case True
    with assms None have "Atoi lib v \<noteq> None"
      by (simp add: bad_attribute_def)
    with True show ?thesis
      using addAttribute_integer_isl[of lib p v] by (auto simp: list_all_iff)
  next
    case False
    with assms None have "n \<in> set spec_string_attributes \<or> n \<in> set spec_address_attributes"
      by (simp add: bad_attribute_def)
    then show ?thesis
      using addAttribute_string_all[of lib p v] addAttribute_address_all[of lib p v]
      by (auto simp: list_all_iff)
  qed
qed

text \<open>The loop over the attribute map.\<close>

lemma addAttributes_good:
  "\<forall>(n, v) \<in> set attrs. \<not> bad_attribute lib n v \<Longrightarrow> \<not> isl (addAttributes lib p attrs)"
proof (induction attrs arbitrary: p)
  case Nil
  show ?case by simp
next
  case (Cons a attrs)
  obtain n v where a: "a = (n, v)" by (cases a)
  with Cons.prems have "\<not> isl (addAttribute lib p n v)"
    by (simp add: good_attribute_ok)
  then obtain p' where "addAttribute lib p n v = Inr p'"
    by (cases "addAttribute lib p n v") simp_all
  with Cons a show ?case by simp
qed

lemma addAttributes_stops:
  assumes good: "\<forall>(a, b) \<in> set pre. \<not> bad_attribute lib a b"
    and err: "\<forall>p. addAttribute lib p n v = Inl err"
  shows "addAttributes lib p (pre @ (n, v) # post) = Inl (n, err)"
  using good
proof (induction pre arbitrary: p)
  case Nil
  from err show ?case by simp
next
  case (Cons a pre)
  obtain a1 a2 where a: "a = (a1, a2)" by (cases a)
  with Cons.prems have "\<not> isl (addAttribute lib p a1 a2)"
    by (simp add: good_attribute_ok)
  then obtain p' where "addAttribute lib p a1 a2 = Inr p'"
    by (cases "addAttribute lib p a1 a2") simp_all
  with Cons a show ?case by simp
qed

lemma first_bad_attribute:
  assumes "(n0, v0) \<in> set attrs" and "bad_attribute lib n0 v0"
  shows "\<exists>pre n v post err. attrs = pre @ (n, v) # post
      \<and> (\<forall>(a, b) \<in> set pre. \<not> bad_attribute lib a b) \<and> bad_attribute lib n v
      \<and> err \<noteq> [] \<and> (\<forall>p. addAttribute lib p n v = Inl err)
      \<and> (\<forall>p post'. addAttributes lib p (pre @ (n, v) # post') = Inl (n, err))"
proof -
  from assms have "\<exists>x \<in> set attrs. bad_attribute lib (fst x) (snd x)"
    by force
  from split_list_first_prop[OF this]
  obtain pre x post where s: "attrs = pre @ x # post"
    and b: "bad_attribute lib (fst x) (snd x)"
    and g: "\<forall>y \<in> set pre. \<not> bad_attribute lib (fst y) (snd y)"
    by blast
  from b obtain err where e: "err \<noteq> []" "\<forall>p. addAttribute lib p (fst x) (snd x) = Inl err"
    using bad_attribute_fails by blast
  from g have g': "\<forall>(a, b) \<in> set pre. \<not> bad_attribute lib a b"
    by auto
  have "\<forall>p post'. addAttributes lib p (pre @ (fst x, snd x) # post') = Inl (fst x, err)"
    using addAttributes_stops[OF g' e(2)] by blast
  with s b g' e show ?thesis
    by (metis prod.collapse)
qed

text \<open>The ways an invocation proceeds.\<close>

lemma rad_Run_undecoded:
  "rad_Decode lib step = Inl err \<Longrightarrow> rad_Run lib env ctx step = (Inl err, [])"
  by (simp add: rad_Run_def)

lemma rad_Run_unsupported_code:
  "rad_Decode lib step = Inr e0 \<Longrightarrow> parse_Code (rad_Code (rad_defaults e0)) = None \<Longrightarrow>
   rad_Run lib env ctx step = (Inl (''unsupported RADIUS code: '' @ rad_Code (rad_defaults e0)), [])"
  by (simp add: rad_Run_def Let_def)

lemma rad_Run_attribute_failure:
  "rad_Decode lib step = Inr e0 \<Longrightarrow> parse_Code (rad_Code (rad_defaults e0)) = Some code \<Longrightarrow>
   addAttributes lib (New code (bytes_of (rad_Secret (rad_defaults e0)))) (rad_Attributes e0)
     = Inl (n, err) \<Longrightarrow>
   rad_Run lib env ctx step =
     (Inr (rad_Result0\<lparr> radr_Err := ''failed to add attribute '' @ n @ '': '' @ err \<rparr>), [])"
  by (simp add: rad_Run_def Let_def rad_defaults_simps)

lemma rad_Run_unanswered:
  "rad_Decode lib step = Inr e0 \<Longrightarrow> parse_Code (rad_Code (rad_defaults e0)) = Some code \<Longrightarrow>
   addAttributes lib (New code (bytes_of (rad_Secret (rad_defaults e0)))) (rad_Attributes e0)
     = Inr packet \<Longrightarrow>
   Exchange env (WithTimeout ctx (timeout_of (rad_Timeout (rad_defaults e0)))) packet
     (rad_Server (rad_defaults e0)) = Inl err \<Longrightarrow>
   rad_Run lib env ctx step =
     (Inr (rad_Result0\<lparr> radr_Request := Some
              \<lparr> req_server = rad_Server (rad_defaults e0), req_code = rad_Code (rad_defaults e0),
                req_attributes = rad_Attributes e0 \<rparr>,
            radr_Err := err,
            radr_TimeSeconds := Seconds (rad_Since env
              [rad_Exchanged (WithTimeout ctx (timeout_of (rad_Timeout (rad_defaults e0)))) packet
                 (rad_Server (rad_defaults e0))]) \<rparr>),
      [rad_Exchanged (WithTimeout ctx (timeout_of (rad_Timeout (rad_defaults e0)))) packet
         (rad_Server (rad_defaults e0))])"
  by (simp add: rad_Run_def Let_def rad_defaults_simps)

lemma rad_Run_answered:
  "rad_Decode lib step = Inr e0 \<Longrightarrow> parse_Code (rad_Code (rad_defaults e0)) = Some code \<Longrightarrow>
   addAttributes lib (New code (bytes_of (rad_Secret (rad_defaults e0)))) (rad_Attributes e0)
     = Inr packet \<Longrightarrow>
   Exchange env (WithTimeout ctx (timeout_of (rad_Timeout (rad_defaults e0)))) packet
     (rad_Server (rad_defaults e0)) = Inr response \<Longrightarrow>
   rad_Run lib env ctx step =
     (Inr (rad_assemble env response
            (rad_Result0\<lparr> radr_Request := Some
              \<lparr> req_server = rad_Server (rad_defaults e0), req_code = rad_Code (rad_defaults e0),
                req_attributes = rad_Attributes e0 \<rparr> \<rparr>)
            [rad_Exchanged (WithTimeout ctx (timeout_of (rad_Timeout (rad_defaults e0)))) packet
               (rad_Server (rad_defaults e0))]),
      [rad_Exchanged (WithTimeout ctx (timeout_of (rad_Timeout (rad_defaults e0)))) packet
         (rad_Server (rad_defaults e0))])"
  by (simp add: rad_Run_def Let_def rad_defaults_simps)

lemma rad_assemble_keeps:
  "radr_Request (rad_assemble env response result tr) = radr_Request result
   \<and> radr_Err (rad_assemble env response result tr) = radr_Err result
   \<and> radr_TimeSeconds (rad_assemble env response result tr) = Seconds (rad_Since env tr)"
  by (simp add: rad_assemble_def Let_def)

text \<open>The example steps, as \<open>Run\<close> sees them.\<close>

lemma ex_rad_decoded:
  "rad_Decode ex_rad_lib (ex_rad_step code attrs) = Inr (ex_rad_cfg code attrs)"
  by (simp add: ex_rad_lib_def ex_rad_step_def)

lemma ex_rad_cfg_simps:
  "rad_Server (ex_rad_cfg code attrs) = ''''"
  "rad_Secret (ex_rad_cfg code attrs) = ''''"
  "rad_Code (ex_rad_cfg code attrs) = code"
  "rad_Timeout (ex_rad_cfg code attrs) = 0"
  "rad_Attributes (ex_rad_cfg code attrs) = attrs"
  by (simp_all add: ex_rad_cfg_def)

lemma ex_rad_code:
  "parse_Code (rad_Code (rad_defaults (ex_rad_cfg '''' attrs))) = Some CodeAccessRequest"
  by (simp add: rad_defaults_simps ex_rad_cfg_simps parse_Code_def)

lemma ex_rad_code_name:
  "rad_Code (rad_defaults (ex_rad_cfg '''' attrs)) \<in> set spec_code_names"
  by (simp add: rad_defaults_simps ex_rad_cfg_simps spec_code_names_def)

lemma ex_invalid_attribute:
  "addAttribute lib p ''Invalid-Attribute'' v = Inl ''unsupported attribute: Invalid-Attribute''"
  by (simp add: addAttribute_def)

lemma ex_invalid_attribute_bad: "bad_attribute lib ''Invalid-Attribute'' v"
  by (simp add: bad_attribute_def spec_enum_attributes_def spec_integer_attributes_def
      spec_string_attributes_def spec_address_attributes_def)

lemma ex_user_name_good: "\<not> bad_attribute lib ''User-Name'' v"
  by (simp add: bad_attribute_def spec_enum_attributes_def spec_integer_attributes_def
      spec_string_attributes_def)

lemma ex_nas_port_good: "\<not> bad_attribute ex_rad_lib ''NAS-Port'' ''0''"
  by (simp add: bad_attribute_def spec_enum_attributes_def spec_integer_attributes_def
      ex_rad_lib_def go_Atoi_def)

lemma ex_rad_invalid_run:
  "rad_Run ex_rad_lib env Background (ex_rad_step '''' (pre @ (''Invalid-Attribute'', v) # post))
     = (Inr (rad_Result0\<lparr> radr_Err :=
          ''failed to add attribute Invalid-Attribute: unsupported attribute: Invalid-Attribute'' \<rparr>), [])"
  if "\<forall>(a, b) \<in> set pre. \<not> bad_attribute ex_rad_lib a b"
proof -
  have "addAttributes ex_rad_lib p (pre @ (''Invalid-Attribute'', v) # post)
      = Inl (''Invalid-Attribute'', ''unsupported attribute: Invalid-Attribute'')" for p
    by (rule addAttributes_stops[OF that]) (simp add: ex_invalid_attribute)
  from rad_Run_attribute_failure[OF ex_rad_decoded ex_rad_code, unfolded ex_rad_cfg_simps, OF this]
  show ?thesis by simp
qed

subsection \<open>The claims about the RADIUS executor\<close>

text \<open>
  Claim C3. In the RADIUS executor, for an invocation that decodes and whose code name
  resolves, and for any attribute map containing an attribute that cannot be encoded (an
  unsupported name, an enumeration value outside its vocabulary, or a value that is not
  numeric where an integer is required): the loop reaches a first such attribute, after
  attributes that all encode; nothing after it is looked at (whatever follows it, the loop
  stops there with the same error); \<open>Run\<close> returns a nil error and a result whose \<open>Err\<close>
  is the non-empty message "failed to add attribute NAME: ERROR" naming that attribute;
  and no packet is sent.
\<close>

theorem rad_attribute_failure:
  assumes "rad_Decode lib step = Inr e0"
    and "rad_Code (rad_defaults e0) \<in> set spec_code_names"
    and "(n0, v0) \<in> set (rad_Attributes e0)" and "bad_attribute lib n0 v0"
  shows "\<exists>pre n v post err r.
      rad_Attributes e0 = pre @ (n, v) # post
      \<and> (\<forall>(a, b) \<in> set pre. \<not> bad_attribute lib a b) \<and> bad_attribute lib n v
      \<and> (\<forall>p. addAttribute lib p n v = Inl err)
      \<and> (\<forall>p post'. addAttributes lib p (pre @ (n, v) # post') = Inl (n, err))
      \<and> rad_Run lib env ctx step = (Inr r, [])
      \<and> radr_Err r = ''failed to add attribute '' @ n @ '': '' @ err
      \<and> radr_Err r \<noteq> ''''"
proof -
  from assms(2) obtain code where code: "parse_Code (rad_Code (rad_defaults e0)) = Some code"
    using parse_Code_table[of "rad_Code (rad_defaults e0)"] by auto
  from first_bad_attribute[OF assms(3,4)]
  obtain pre n v post err where s: "rad_Attributes e0 = pre @ (n, v) # post"
    and g: "\<forall>(a, b) \<in> set pre. \<not> bad_attribute lib a b" and b: "bad_attribute lib n v"
    and e: "\<forall>p. addAttribute lib p n v = Inl err"
    and l: "\<forall>p post'. addAttributes lib p (pre @ (n, v) # post') = Inl (n, err)"
    by blast
  from l s have "addAttributes lib (New code (bytes_of (rad_Secret (rad_defaults e0))))
      (rad_Attributes e0) = Inl (n, err)"
    by simp
  from rad_Run_attribute_failure[OF assms(1) code this]
  have "rad_Run lib env ctx step =
     (Inr (rad_Result0\<lparr> radr_Err := ''failed to add attribute '' @ n @ '': '' @ err \<rparr>), [])" .
  with s g b e l show ?thesis
    by (intro exI[of _ pre] exI[of _ n] exI[of _ v] exI[of _ post] exI[of _ err]
        exI[of _ "rad_Result0\<lparr> radr_Err := ''failed to add attribute '' @ n @ '': '' @ err \<rparr>"])
      simp
qed

theorem rad_attribute_failure_witness:
  "rad_Decode ex_rad_lib (ex_rad_step ''''
       [(''User-Name'', ''testuser''), (''Invalid-Attribute'', ''value''), (''NAS-Port'', ''abc'')])
     = Inr (ex_rad_cfg ''''
       [(''User-Name'', ''testuser''), (''Invalid-Attribute'', ''value''), (''NAS-Port'', ''abc'')])
   \<and> rad_Code (rad_defaults (ex_rad_cfg ''''
       [(''User-Name'', ''testuser''), (''Invalid-Attribute'', ''value''), (''NAS-Port'', ''abc'')]))
       \<in> set spec_code_names
   \<and> bad_attribute ex_rad_lib ''Invalid-Attribute'' ''value''
   \<and> (\<exists>pre n v post err r.
        [(''User-Name'', ''testuser''), (''Invalid-Attribute'', ''value''), (''NAS-Port'', ''abc'')]
          = pre @ (n, v) # post
        \<and> (\<forall>(a, b) \<in> set pre. \<not> bad_attribute ex_rad_lib a b) \<and> bad_attribute ex_rad_lib n v
        \<and> (\<forall>p. addAttribute ex_rad_lib p n v = Inl err)
        \<and> rad_Run ex_rad_lib ex_rad_up Background (ex_rad_step ''''
            [(''User-Name'', ''testuser''), (''Invalid-Attribute'', ''value''), (''NAS-Port'', ''abc'')])
            = (Inr r, [])
        \<and> radr_Err r = ''failed to add attribute '' @ n @ '': '' @ err \<and> radr_Err r \<noteq> '''')
   \<and> rad_Run ex_rad_lib ex_rad_up Background (ex_rad_step ''''
        [(''User-Name'', ''testuser''), (''Invalid-Attribute'', ''value''), (''NAS-Port'', ''abc'')])
       = (Inr (rad_Result0\<lparr> radr_Err :=
            ''failed to add attribute Invalid-Attribute: unsupported attribute: Invalid-Attribute'' \<rparr>),
          [])"
proof -
  let ?attrs = "[(''User-Name'', ''testuser''), (''Invalid-Attribute'', ''value''), (''NAS-Port'', ''abc'')]"
  have m: "(''Invalid-Attribute'', ''value'') \<in> set (rad_Attributes (ex_rad_cfg '''' ?attrs))"
    by (simp add: ex_rad_cfg_simps)
  have b: "bad_attribute ex_rad_lib ''Invalid-Attribute'' ''value''"
    by (rule ex_invalid_attribute_bad)
  have g: "\<forall>(a, b) \<in> set [(''User-Name'', ''testuser'')]. \<not> bad_attribute ex_rad_lib a b"
    by (simp add: ex_user_name_good)
  have run: "rad_Run ex_rad_lib ex_rad_up Background (ex_rad_step '''' ?attrs)
       = (Inr (rad_Result0\<lparr> radr_Err :=
            ''failed to add attribute Invalid-Attribute: unsupported attribute: Invalid-Attribute'' \<rparr>),
          [])"
    using ex_rad_invalid_run[OF g, of ex_rad_up "''value''" "[(''NAS-Port'', ''abc'')]"] by simp
  from rad_attribute_failure[OF ex_rad_decoded ex_rad_code_name m b, of ex_rad_up Background]
  have "\<exists>pre n v post err r. ?attrs = pre @ (n, v) # post
        \<and> (\<forall>(a, b) \<in> set pre. \<not> bad_attribute ex_rad_lib a b) \<and> bad_attribute ex_rad_lib n v
        \<and> (\<forall>p. addAttribute ex_rad_lib p n v = Inl err)
        \<and> rad_Run ex_rad_lib ex_rad_up Background (ex_rad_step '''' ?attrs) = (Inr r, [])
        \<and> radr_Err r = ''failed to add attribute '' @ n @ '': '' @ err \<and> radr_Err r \<noteq> ''''"
    unfolding ex_rad_cfg_simps by blast
  with ex_rad_decoded[of "''''" ?attrs] ex_rad_code_name[of ?attrs] b run show ?thesis
    by blast
qed

text \<open>
  Claim C5, as the specification states it: the request is recorded into
  \<open>Result.Request\<close> also when attribute encoding fails. It is not: the step whose only
  attribute is Invalid-Attribute decodes, its code (the default Access-Request) resolves,
  and the soft-failure result that \<open>Run\<close> returns has no \<open>Request\<close>.
\<close>

theorem rad_request_missing_on_attribute_failure:
  "rad_Decode ex_rad_lib (ex_rad_step '''' [(''Invalid-Attribute'', ''value'')])
     = Inr (ex_rad_cfg '''' [(''Invalid-Attribute'', ''value'')])
   \<and> parse_Code (rad_Code (rad_defaults (ex_rad_cfg '''' [(''Invalid-Attribute'', ''value'')])))
       = Some CodeAccessRequest
   \<and> \<not> isl (fst (rad_Run ex_rad_lib ex_rad_down Background
                    (ex_rad_step '''' [(''Invalid-Attribute'', ''value'')])))
   \<and> radr_Err (projr (fst (rad_Run ex_rad_lib ex_rad_down Background
                    (ex_rad_step '''' [(''Invalid-Attribute'', ''value'')])))) \<noteq> ''''
   \<and> radr_Request (projr (fst (rad_Run ex_rad_lib ex_rad_down Background
                    (ex_rad_step '''' [(''Invalid-Attribute'', ''value'')])))) = None"
proof -
  have "rad_Run ex_rad_lib ex_rad_down Background (ex_rad_step '''' [(''Invalid-Attribute'', ''value'')])
     = (Inr (rad_Result0\<lparr> radr_Err :=
          ''failed to add attribute Invalid-Attribute: unsupported attribute: Invalid-Attribute'' \<rparr>), [])"
    using ex_rad_invalid_run[of "[]" ex_rad_down "''value''" "[]"] by simp
  with ex_rad_decoded[of "''''" "[(''Invalid-Attribute'', ''value'')]"]
    ex_rad_code[of "[(''Invalid-Attribute'', ''value'')]"]
  show ?thesis by (simp add: rad_Result0_def)
qed

text \<open>
  Claim C5, amended. In the RADIUS executor, for every invocation that passes config
  decoding, code resolution and attribute encoding, the fully-resolved request (server,
  code, attribute map) is recorded into \<open>Result.Request\<close>, whatever the outcome of the
  exchange.
\<close>

theorem rad_request_recorded:
  assumes "rad_Decode lib step = Inr e0"
    and "rad_Code (rad_defaults e0) \<in> set spec_code_names"
    and "\<forall>(n, v) \<in> set (rad_Attributes e0). \<not> bad_attribute lib n v"
  shows "\<exists>r tr. rad_Run lib env ctx step = (Inr r, tr)
      \<and> radr_Request r = Some \<lparr> req_server = rad_Server (rad_defaults e0),
            req_code = rad_Code (rad_defaults e0), req_attributes = rad_Attributes e0 \<rparr>"
proof -
  from assms(2) obtain code where code: "parse_Code (rad_Code (rad_defaults e0)) = Some code"
    using parse_Code_table[of "rad_Code (rad_defaults e0)"] by auto
  from addAttributes_good[OF assms(3)] obtain packet where
    packet: "addAttributes lib (New code (bytes_of (rad_Secret (rad_defaults e0))))
               (rad_Attributes e0) = Inr packet"
    by (metis isl_def sum.exhaust_sel)
  show ?thesis
  proof (cases "Exchange env (WithTimeout ctx (timeout_of (rad_Timeout (rad_defaults e0)))) packet
      (rad_Server (rad_defaults e0))")
    case (Inl err)
    from rad_Run_unanswered[OF assms(1) code packet Inl] show ?thesis by simp
  next
    case (Inr response)
    from rad_Run_answered[OF assms(1) code packet Inr] show ?thesis
      by (simp add: rad_assemble_keeps)
  qed
qed

theorem rad_request_recorded_witness:
  "rad_Decode ex_rad_lib (ex_rad_step '''' [(''User-Name'', ''testuser''), (''NAS-Port'', ''0'')])
     = Inr (ex_rad_cfg '''' [(''User-Name'', ''testuser''), (''NAS-Port'', ''0'')])
   \<and> rad_Code (rad_defaults (ex_rad_cfg '''' [(''User-Name'', ''testuser''), (''NAS-Port'', ''0'')]))
       \<in> set spec_code_names
   \<and> \<not> bad_attribute ex_rad_lib ''User-Name'' ''testuser''
   \<and> \<not> bad_attribute ex_rad_lib ''NAS-Port'' ''0''
   \<and> (\<exists>r tr. rad_Run ex_rad_lib ex_rad_down Background
                 (ex_rad_step '''' [(''User-Name'', ''testuser''), (''NAS-Port'', ''0'')]) = (Inr r, tr)
         \<and> radr_Err r = ''context deadline exceeded''
         \<and> radr_Request r = Some \<lparr> req_server = ''localhost:1812'', req_code = ''Access-Request'',
               req_attributes = [(''User-Name'', ''testuser''), (''NAS-Port'', ''0'')] \<rparr>)"
proof -
  let ?attrs = "[(''User-Name'', ''testuser''), (''NAS-Port'', ''0'')]"
  have g: "\<forall>(n, v) \<in> set (rad_Attributes (ex_rad_cfg '''' ?attrs)). \<not> bad_attribute ex_rad_lib n v"
    by (simp add: ex_rad_cfg_simps ex_user_name_good ex_nas_port_good)
  from rad_request_recorded[OF ex_rad_decoded ex_rad_code_name g, of ex_rad_down Background]
  obtain r tr where run: "rad_Run ex_rad_lib ex_rad_down Background (ex_rad_step '''' ?attrs) = (Inr r, tr)"
    and req: "radr_Request r = Some \<lparr> req_server = ''localhost:1812'', req_code = ''Access-Request'',
               req_attributes = ?attrs \<rparr>"
    by (auto simp: rad_defaults_simps ex_rad_cfg_simps)
  from addAttributes_good[OF g] obtain packet where
    packet: "addAttributes ex_rad_lib (New CodeAccessRequest
               (bytes_of (rad_Secret (rad_defaults (ex_rad_cfg '''' ?attrs)))))
               (rad_Attributes (ex_rad_cfg '''' ?attrs)) = Inr packet"
    by (metis isl_def sum.exhaust_sel)
  have "Exchange ex_rad_down c packet s = Inl ''context deadline exceeded''" for c s
    by (simp add: ex_rad_down_def)
  from rad_Run_unanswered[OF ex_rad_decoded ex_rad_code packet this] run
  have "radr_Err r = ''context deadline exceeded''"
    by auto
  with run req ex_rad_decoded[of "''''" ?attrs] ex_rad_code_name[of ?attrs]
    ex_user_name_good[of ex_rad_lib "''testuser''"] ex_nas_port_good
  show ?thesis by blast
qed

text \<open>
  Every other path that returns a result records the elapsed time: every path of the DNS
  executor, and the paths of the RADIUS executor that reach the exchange.
\<close>

lemma dns_time_recorded:
  assumes "dns_Run lib env ctx step = (Inr r, tr)"
  shows "dnsr_TimeSeconds r = Seconds (dns_Since env tr)"
proof -
  from assms obtain e0 where dec: "dns_Decode lib step = Inr e0"
    by (cases "dns_Decode lib step") (auto simp: dns_Run_def)
  from assms dec have srv: "dns_Server e0 \<noteq> []"
    by (auto simp: dns_Run_def split: if_splits)
  show ?thesis
  proof (cases "stringToQType (dns_QType (dns_defaults e0))")
    case (Inl err)
    from dns_Run_unsupported[OF dec srv Inl, of env ctx] assms show ?thesis by auto
  next
    case t: (Inr t)
    show ?thesis
    proof (cases "ExchangeContext env ''udp'' (WithTimeout ctx (timeout_of (dns_Timeout (dns_defaults e0))))
           (dns_question lib env 0 (dns_defaults e0) t) (dns_Server (dns_defaults e0))")
      case (Inl err)
      from dns_Run_unanswered[OF dec srv t Inl] assms show ?thesis by auto
    next
      case (Inr p)
      obtain u urtt where p: "p = (u, urtt)" by (cases p)
      from dns_Run_answered[OF dec srv t Inr[unfolded p]] assms show ?thesis
        by (auto simp: dns_assemble_Time split: prod.splits)
    qed
  qed
qed

lemma rad_time_recorded:
  assumes "rad_Run lib env ctx step = (Inr r, tr)" and "tr \<noteq> []"
  shows "radr_TimeSeconds r = Seconds (rad_Since env tr)"
  using assms
  by (auto simp: rad_Run_def Let_def rad_assemble_keeps split: sum.splits option.splits prod.splits)

text \<open>
  Claim C4 asks that every exit path of \<open>Run\<close> that returns a result records the elapsed
  time. The return in the attribute loop of the RADIUS executor does not: for the step
  whose only attribute is Invalid-Attribute, in a world where three milliseconds have
  passed when \<open>Run\<close> returns, the result has \<open>TimeSeconds\<close> zero.
\<close>

theorem rad_attribute_failure_without_time:
  "fst (rad_Run ex_rad_lib ex_rad_down Background (ex_rad_step '''' [(''Invalid-Attribute'', ''value'')]))
     = Inr (rad_Result0\<lparr> radr_Err :=
         ''failed to add attribute Invalid-Attribute: unsupported attribute: Invalid-Attribute'' \<rparr>)
   \<and> radr_TimeSeconds (projr (fst (rad_Run ex_rad_lib ex_rad_down Background
         (ex_rad_step '''' [(''Invalid-Attribute'', ''value'')])))) = 0
   \<and> Seconds (rad_Since ex_rad_down (snd (rad_Run ex_rad_lib ex_rad_down Background
         (ex_rad_step '''' [(''Invalid-Attribute'', ''value'')])))) = 3 / 1000"
proof -
  have "rad_Run ex_rad_lib ex_rad_down Background (ex_rad_step '''' [(''Invalid-Attribute'', ''value'')])
     = (Inr (rad_Result0\<lparr> radr_Err :=
          ''failed to add attribute Invalid-Attribute: unsupported attribute: Invalid-Attribute'' \<rparr>), [])"
    using ex_rad_invalid_run[of "[]" ex_rad_down "''value''" "[]"] by simp
  then show ?thesis
    by (simp add: rad_Result0_def ex_rad_down_def Seconds_def)
qed

text \<open>
  The address attributes hand the bytes of the value string to their setter, whatever the
  string is.
\<close>

lemma addAttribute_address_raw:
  "addAttribute lib p ''NAS-IP-Address'' v
     = Inr (call ''rfc2865.NASIPAddress_Set'' (ABytes (bytes_of v)) p)"
  "addAttribute lib p ''Framed-IP-Address'' v
     = Inr (call ''rfc2865.FramedIPAddress_Set'' (ABytes (bytes_of v)) p)"
  "addAttribute lib p ''Framed-IP-Netmask'' v
     = Inr (call ''rfc2865.FramedIPNetmask_Set'' (ABytes (bytes_of v)) p)"
  by (simp_all add: addAttribute_def)

text \<open>
  Claim C6 asks that the value of NAS-IP-Address, Framed-IP-Address and Framed-IP-Netmask
  be parsed as dotted-decimal notation into 4 bytes before it is added to the packet.
  \<open>addAttribute\<close> does not parse: for NAS-IP-Address 192.168.1.1 the setter is handed the
  eleven bytes of the text, not the four bytes 192, 168, 1, 1.
\<close>

theorem rad_address_not_parsed:
  "addAttribute ex_rad_lib (New CodeAccessRequest (bytes_of ''secret'')) ''NAS-IP-Address''
       ''192.168.1.1''
     = Inr (call ''rfc2865.NASIPAddress_Set''
              (ABytes [49, 57, 50, 46, 49, 54, 56, 46, 49, 46, 49])
              (New CodeAccessRequest (bytes_of ''secret'')))
   \<and> length (bytes_of ''192.168.1.1'') = 11
   \<and> bytes_of ''192.168.1.1'' \<noteq> [192, 168, 1, 1]"
  by (simp add: addAttribute_address_raw bytes_of_def)

section \<open>The two error channels\<close>

lemma rad_Run_result:
  assumes "rad_Decode lib step = Inr e" and "parse_Code (rad_Code (rad_defaults e)) = Some code"
  shows "\<exists>r tr. rad_Run lib env ctx step = (Inr r, tr)"
proof (cases "addAttributes lib (New code (bytes_of (rad_Secret (rad_defaults e)))) (rad_Attributes e)")
  case (Inl a)
  obtain n err where "a = (n, err)" by (cases a)
  with Inl rad_Run_attribute_failure[OF assms] show ?thesis by blast
next
  case packet: (Inr packet)
  show ?thesis
  proof (cases "Exchange env (WithTimeout ctx (timeout_of (rad_Timeout (rad_defaults e)))) packet
      (rad_Server (rad_defaults e))")
    case (Inl err)
    from rad_Run_unanswered[OF assms packet Inl] show ?thesis by blast
  next
    case (Inr response)
    from rad_Run_answered[OF assms packet Inr] show ?thesis by blast
  qed
qed

lemma rad_Run_error_iff:
  "(\<exists>err. fst (rad_Run lib env ctx step) = Inl err) \<longleftrightarrow>
     (\<exists>err. rad_Decode lib step = Inl err)
     \<or> (\<exists>e. rad_Decode lib step = Inr e \<and> rad_Code (rad_defaults e) \<notin> set spec_code_names)"
proof (cases "rad_Decode lib step")
  case (Inl err)
  then show ?thesis by (simp add: rad_Run_undecoded)
next
  case (Inr e)
  show ?thesis
  proof (cases "parse_Code (rad_Code (rad_defaults e))")
    case None
    with Inr show ?thesis
      using parse_Code_table[of "rad_Code (rad_defaults e)"]
      by (simp add: rad_Run_unsupported_code)
  next
    case (Some code)
    from rad_Run_result[OF Inr Some, of env ctx] Inr Some show ?thesis
      using parse_Code_table[of "rad_Code (rad_defaults e)"] by auto
  qed
qed

lemma dns_Run_result:
  assumes "dns_Decode lib step = Inr e" and "dns_Server e \<noteq> []"
  shows "\<exists>r tr. dns_Run lib env ctx step = (Inr r, tr)"
proof (cases "stringToQType (dns_QType (dns_defaults e))")
  case (Inl err)
  from dns_Run_unsupported[OF assms Inl] show ?thesis by blast
next
  case t: (Inr t)
  show ?thesis
  proof (cases "ExchangeContext env ''udp'' (WithTimeout ctx (timeout_of (dns_Timeout (dns_defaults e))))
         (dns_question lib env 0 (dns_defaults e) t) (dns_Server (dns_defaults e))")
    case (Inl err)
    from dns_Run_unanswered[OF assms t Inl] show ?thesis by blast
  next
    case (Inr p)
    obtain u urtt where p: "p = (u, urtt)" by (cases p)
    from dns_Run_answered[OF assms t Inr[unfolded p]] show ?thesis
      by (auto split: prod.splits)
  qed
qed

lemma dns_Run_error_iff:
  "(\<exists>err. fst (dns_Run lib env ctx step) = Inl err) \<longleftrightarrow>
     (\<exists>err. dns_Decode lib step = Inl err)
     \<or> (\<exists>e. dns_Decode lib step = Inr e \<and> dns_Server e = '''')"
proof (cases "dns_Decode lib step")
  case (Inl err)
  then show ?thesis by (simp add: dns_Run_def)
next
  case (Inr e)
  show ?thesis
  proof (cases "dns_Server e = ''''")
    case True
    with Inr show ?thesis by (simp add: dns_Run_def)
  next
    case False
    from dns_Run_result[OF Inr False, of env ctx] Inr False show ?thesis by auto
  qed
qed

lemma rad_soft_attribute:
  assumes "rad_Decode lib step = Inr e" and "rad_Code (rad_defaults e) \<in> set spec_code_names"
    and "(n, v) \<in> set (rad_Attributes e)" and "bad_attribute lib n v"
  shows "\<exists>r. rad_Run lib env ctx step = (Inr r, []) \<and> radr_Err r \<noteq> ''''"
proof -
  from assms(2) obtain code where code: "parse_Code (rad_Code (rad_defaults e)) = Some code"
    using parse_Code_table[of "rad_Code (rad_defaults e)"] by auto
  from first_bad_attribute[OF assms(3,4)]
  obtain pre n' v' post err where "rad_Attributes e = pre @ (n', v') # post"
    and "\<forall>p post'. addAttributes lib p (pre @ (n', v') # post') = Inl (n', err)"
    by blast
  then have "addAttributes lib (New code (bytes_of (rad_Secret (rad_defaults e))))
      (rad_Attributes e) = Inl (n', err)"
    by simp
  from rad_Run_attribute_failure[OF assms(1) code this] show ?thesis by simp
qed

lemma dns_soft_qtype:
  assumes "dns_Decode lib step = Inr e" and "dns_Server e \<noteq> ''''"
    and "dns_QType (dns_defaults e) \<notin> set spec_qtype_table"
  shows "\<exists>r. dns_Run lib env ctx step = (Inr r, []) \<and> dnsr_Err r \<noteq> ''''"
  using dns_Run_unsupported[OF assms(1,2) stringToQType_unsupported[OF assms(3)]] by simp

lemma dns_soft_retry:
  assumes "dns_Decode lib step = Inr e" and "dns_Server e \<noteq> ''''"
    and "stringToQType (dns_QType (dns_defaults e)) = Inr t"
    and "ExchangeContext env ''udp'' (WithTimeout ctx (timeout_of (dns_Timeout (dns_defaults e))))
           (dns_question lib env 0 (dns_defaults e) t) (dns_Server (dns_defaults e)) = Inr (u, urtt)"
    and "m_Truncated u"
    and "ExchangeContext env ''tcp'' (WithTimeout ctx (timeout_of (dns_Timeout (dns_defaults e))))
           (dns_question lib env 1 (dns_defaults e) t) (dns_Server (dns_defaults e)) = Inl err"
  shows "\<exists>r tr. dns_Run lib env ctx step = (Inr r, tr)
           \<and> dnsr_Err r = ''UDP response truncated, TCP retry failed: '' @ err"
  using dns_truncated_outcomes[OF assms(1,2) refl assms(3) refl assms(4,5)] assms(6) by auto

text \<open>
  Claim C1. For every step descriptor, \<open>Run\<close> returns a non-nil error only when the
  descriptor fails to decode, when the DNS server field is missing, or when the RADIUS
  packet code name (after defaulting) is not one of the 14 supported names. Every other
  failure is recorded in \<open>Result.Err\<close> and \<open>Run\<close> returns a nil error: an attribute that
  cannot be encoded (unknown name, unknown enumeration value, non-numeric integer), an
  unknown DNS record type, an error of the RADIUS exchange or of the DNS UDP exchange
  (transport error or timeout), an error of the DNS TCP retry; and the conversion of the
  DNS response never fails.
\<close>

theorem run_error_channels:
  "length spec_code_names = 14
   \<and> ((\<exists>err. fst (rad_Run lib env ctx step) = Inl err) \<longleftrightarrow>
        (\<exists>err. rad_Decode lib step = Inl err)
        \<or> (\<exists>e. rad_Decode lib step = Inr e \<and> rad_Code (rad_defaults e) \<notin> set spec_code_names))
   \<and> (rad_Decode lib step2 = Inr e2 \<longrightarrow> rad_Code (rad_defaults e2) \<in> set spec_code_names \<longrightarrow>
        (n, v) \<in> set (rad_Attributes e2) \<longrightarrow> bad_attribute lib n v \<longrightarrow>
        (\<exists>r. rad_Run lib env ctx step2 = (Inr r, []) \<and> radr_Err r \<noteq> ''''))
   \<and> (rad_Decode lib step3 = Inr e3 \<longrightarrow> parse_Code (rad_Code (rad_defaults e3)) = Some code \<longrightarrow>
        addAttributes lib (New code (bytes_of (rad_Secret (rad_defaults e3)))) (rad_Attributes e3)
          = Inr packet \<longrightarrow>
        Exchange env (WithTimeout ctx (timeout_of (rad_Timeout (rad_defaults e3)))) packet
          (rad_Server (rad_defaults e3)) = Inl err \<longrightarrow>
        (\<exists>r tr. rad_Run lib env ctx step3 = (Inr r, tr) \<and> radr_Err r = err))
   \<and> ((\<exists>err. fst (dns_Run dlib denv ctx dstep) = Inl err) \<longleftrightarrow>
        (\<exists>err. dns_Decode dlib dstep = Inl err)
        \<or> (\<exists>e. dns_Decode dlib dstep = Inr e \<and> dns_Server e = ''''))
   \<and> (dns_Decode dlib dstep2 = Inr d2 \<longrightarrow> dns_Server d2 \<noteq> '''' \<longrightarrow>
        dns_QType (dns_defaults d2) \<notin> set spec_qtype_table \<longrightarrow>
        (\<exists>r. dns_Run dlib denv ctx dstep2 = (Inr r, []) \<and> dnsr_Err r \<noteq> ''''))
   \<and> (dns_Decode dlib dstep3 = Inr d3 \<longrightarrow> dns_Server d3 \<noteq> '''' \<longrightarrow>
        stringToQType (dns_QType (dns_defaults d3)) = Inr t3 \<longrightarrow>
        ExchangeContext denv3 ''udp'' (WithTimeout ctx (timeout_of (dns_Timeout (dns_defaults d3))))
          (dns_question dlib denv3 0 (dns_defaults d3) t3) (dns_Server (dns_defaults d3)) = Inl derr \<longrightarrow>
        (\<exists>r tr. dns_Run dlib denv3 ctx dstep3 = (Inr r, tr) \<and> dnsr_Err r = derr))
   \<and> (dns_Decode dlib dstep4 = Inr d4 \<longrightarrow> dns_Server d4 \<noteq> '''' \<longrightarrow>
        stringToQType (dns_QType (dns_defaults d4)) = Inr t4 \<longrightarrow>
        ExchangeContext denv4 ''udp'' (WithTimeout ctx (timeout_of (dns_Timeout (dns_defaults d4))))
          (dns_question dlib denv4 0 (dns_defaults d4) t4) (dns_Server (dns_defaults d4)) = Inr (u, urtt) \<longrightarrow>
        m_Truncated u \<longrightarrow>
        ExchangeContext denv4 ''tcp'' (WithTimeout ctx (timeout_of (dns_Timeout (dns_defaults d4))))
          (dns_question dlib denv4 1 (dns_defaults d4) t4) (dns_Server (dns_defaults d4)) = Inl terr \<longrightarrow>
        (\<exists>r tr. dns_Run dlib denv4 ctx dstep4 = (Inr r, tr)
            \<and> dnsr_Err r = ''UDP response truncated, TCP retry failed: '' @ terr))
   \<and> (\<exists>j. dnsMessageToJSON dlib msg = Inr j)"
proof (intro conjI impI)
  show "length spec_code_names = 14"
    by (simp add: spec_code_names_def)
  show "(\<exists>err. fst (rad_Run lib env ctx step) = Inl err) \<longleftrightarrow>
        (\<exists>err. rad_Decode lib step = Inl err)
        \<or> (\<exists>e. rad_Decode lib step = Inr e \<and> rad_Code (rad_defaults e) \<notin> set spec_code_names)"
    by (rule rad_Run_error_iff)
  show "(\<exists>err. fst (dns_Run dlib denv ctx dstep) = Inl err) \<longleftrightarrow>
        (\<exists>err. dns_Decode dlib dstep = Inl err)
        \<or> (\<exists>e. dns_Decode dlib dstep = Inr e \<and> dns_Server e = '''')"
    by (rule dns_Run_error_iff)
  show "\<exists>j. dnsMessageToJSON dlib msg = Inr j"
    by (rule dnsMessageToJSON_Inr)
next
  assume "rad_Decode lib step2 = Inr e2" "rad_Code (rad_defaults e2) \<in> set spec_code_names"
    "(n, v) \<in> set (rad_Attributes e2)" "bad_attribute lib n v"
  then show "\<exists>r. rad_Run lib env ctx step2 = (Inr r, []) \<and> radr_Err r \<noteq> ''''"
    by (rule rad_soft_attribute)
next
  assume a: "rad_Decode lib step3 = Inr e3" "parse_Code (rad_Code (rad_defaults e3)) = Some code"
    "addAttributes lib (New code (bytes_of (rad_Secret (rad_defaults e3)))) (rad_Attributes e3)
          = Inr packet"
    "Exchange env (WithTimeout ctx (timeout_of (rad_Timeout (rad_defaults e3)))) packet
          (rad_Server (rad_defaults e3)) = Inl err"
  from rad_Run_unanswered[OF a]
  show "\<exists>r tr. rad_Run lib env ctx step3 = (Inr r, tr) \<and> radr_Err r = err"
    by simp
next
  assume "dns_Decode dlib dstep2 = Inr d2" "dns_Server d2 \<noteq> ''''"
    "dns_QType (dns_defaults d2) \<notin> set spec_qtype_table"
  then show "\<exists>r. dns_Run dlib denv ctx dstep2 = (Inr r, []) \<and> dnsr_Err r \<noteq> ''''"
    by (rule dns_soft_qtype)
next
  assume a: "dns_Decode dlib dstep3 = Inr d3" "dns_Server d3 \<noteq> ''''"
    "stringToQType (dns_QType (dns_defaults d3)) = Inr t3"
    "ExchangeContext denv3 ''udp'' (WithTimeout ctx (timeout_of (dns_Timeout (dns_defaults d3))))
          (dns_question dlib denv3 0 (dns_defaults d3) t3) (dns_Server (dns_defaults d3)) = Inl derr"
  from dns_Run_unanswered[OF a]
  show "\<exists>r tr. dns_Run dlib denv3 ctx dstep3 = (Inr r, tr) \<and> dnsr_Err r = derr"
    by simp
next
  assume "dns_Decode dlib dstep4 = Inr d4" "dns_Server d4 \<noteq> ''''"
    "stringToQType (dns_QType (dns_defaults d4)) = Inr t4"
    "ExchangeContext denv4 ''udp'' (WithTimeout ctx (timeout_of (dns_Timeout (dns_defaults d4))))
          (dns_question dlib denv4 0 (dns_defaults d4) t4) (dns_Server (dns_defaults d4)) = Inr (u, urtt)"
    "m_Truncated u"
    "ExchangeContext denv4 ''tcp'' (WithTimeout ctx (timeout_of (dns_Timeout (dns_defaults d4))))
          (dns_question dlib denv4 1 (dns_defaults d4) t4) (dns_Server (dns_defaults d4)) = Inl terr"
  then show "\<exists>r tr. dns_Run dlib denv4 ctx dstep4 = (Inr r, tr)
            \<and> dnsr_Err r = ''UDP response truncated, TCP retry failed: '' @ terr"
    by (rule dns_soft_retry)
qed

theorem run_error_channels_witness:
  "(\<exists>err. fst (rad_Run ex_rad_lib ex_rad_down Background (Inl ''cannot decode'')) = Inl err)
   \<and> (\<exists>err. fst (rad_Run ex_rad_lib ex_rad_down Background (ex_rad_step ''Invalid-Code'' [])) = Inl err)
   \<and> ''Invalid-Code'' \<notin> set spec_code_names
   \<and> bad_attribute ex_rad_lib ''Invalid-Attribute'' ''value''
   \<and> (\<exists>r. rad_Run ex_rad_lib ex_rad_down Background
             (ex_rad_step '''' [(''Invalid-Attribute'', ''value'')]) = (Inr r, [])
         \<and> radr_Err r \<noteq> '''')
   \<and> Exchange ex_rad_down (WithTimeout Background (timeout_of 5))
        (call ''rfc2865.UserName_SetString'' (AString ''testuser'')
           (New CodeAccessRequest (bytes_of ''secret'')))
        ''localhost:1812'' = Inl ''context deadline exceeded''
   \<and> (\<exists>r tr. rad_Run ex_rad_lib ex_rad_down Background
             (ex_rad_step '''' [(''User-Name'', ''testuser'')]) = (Inr r, tr)
         \<and> radr_Err r = ''context deadline exceeded'')
   \<and> (\<exists>err. fst (dns_Run ex_dns_lib ex_answered Background (Inl ''cannot decode'')) = Inl err)
   \<and> (\<exists>err. fst (dns_Run ex_dns_lib ex_answered Background (ex_dns_step '''' ''A'')) = Inl err)
   \<and> ''INVALID'' \<notin> set spec_qtype_table
   \<and> (\<exists>r. dns_Run ex_dns_lib ex_answered Background (ex_dns_step ''8.8.8.8:53'' ''INVALID'')
             = (Inr r, [])
         \<and> dnsr_Err r \<noteq> '''')
   \<and> (\<exists>r tr. dns_Run ex_dns_lib (ex_dns_env (Inl ''i/o timeout'') (Inl ''unused'')) Background
             (ex_dns_step ''8.8.8.8:53'' ''A'') = (Inr r, tr)
         \<and> dnsr_Err r = ''i/o timeout'')
   \<and> m_Truncated ex_udp_truncated
   \<and> (\<exists>r tr. dns_Run ex_dns_lib
             (ex_dns_env (Inr (ex_udp_truncated, 7000000)) (Inl ''connection refused'')) Background
             (ex_dns_step ''8.8.8.8:53'' ''A'') = (Inr r, tr)
         \<and> dnsr_Err r = ''UDP response truncated, TCP retry failed: connection refused'')
   \<and> (\<exists>j. dnsMessageToJSON ex_dns_lib ex_complete = Inr j)"
proof -
  let ?bad = "[(''Invalid-Attribute'', ''value'')]"
  let ?good = "[(''User-Name'', ''testuser'')]"
  let ?packet = "call ''rfc2865.UserName_SetString'' (AString ''testuser'')
                   (New CodeAccessRequest (bytes_of ''secret''))"
  let ?down = "ex_dns_env (Inl ''i/o timeout'') (Inl ''unused'')"
  let ?refused = "ex_dns_env (Inr (ex_udp_truncated, 7000000)) (Inl ''connection refused'')"
  let ?cfg = "ex_dns_cfg ''8.8.8.8:53'' ''A''"
  let ?inv = "ex_dns_cfg ''8.8.8.8:53'' ''INVALID''"
  have r1: "rad_Decode ex_rad_lib (Inl ''cannot decode'') = Inl ''cannot decode''"
    by (simp add: ex_rad_lib_def)
  have r1': "rad_Code (rad_defaults (ex_rad_cfg ''Invalid-Code'' [])) \<notin> set spec_code_names"
    by (simp add: rad_defaults_simps ex_rad_cfg_simps spec_code_names_def)
  have c: "''Invalid-Code'' \<notin> set spec_code_names"
    by (simp add: spec_code_names_def)
  have r2: "(''Invalid-Attribute'', ''value'') \<in> set (rad_Attributes (ex_rad_cfg '''' ?bad))"
    by (simp add: ex_rad_cfg_simps)
  have r3: "addAttributes ex_rad_lib
      (New CodeAccessRequest (bytes_of (rad_Secret (rad_defaults (ex_rad_cfg '''' ?good)))))
      (rad_Attributes (ex_rad_cfg '''' ?good)) = Inr ?packet"
    by (simp add: ex_rad_cfg_simps rad_defaults_simps addAttribute_def)
  have r4: "Exchange ex_rad_down c p s = Inl ''context deadline exceeded''" for c p s
    by (simp add: ex_rad_down_def)
  have r4': "Exchange ex_rad_down (WithTimeout Background (timeout_of 5)) ?packet
      ''localhost:1812'' = Inl ''context deadline exceeded''"
    by (rule r4)
  have d1: "dns_Decode ex_dns_lib (Inl ''cannot decode'') = Inl ''cannot decode''"
    by (simp add: ex_dns_lib_def)
  have d1': "dns_Server (ex_dns_cfg '''' ''A'') = ''''"
    by (simp add: ex_dns_cfg_simps)
  have s: "dns_Server ?cfg \<noteq> ''''" "dns_Server ?inv \<noteq> ''''"
    by (simp_all add: ex_dns_cfg_simps)
  have q: "dns_QType (dns_defaults ?inv) \<notin> set spec_qtype_table"
    by (simp add: dns_defaults_simps ex_dns_cfg_simps spec_qtype_table_def)
  have q': "''INVALID'' \<notin> set spec_qtype_table"
    by (simp add: spec_qtype_table_def)
  have t: "stringToQType (dns_QType (dns_defaults ?cfg)) = Inr TypeA"
    by (simp add: dns_defaults_simps ex_dns_cfg_simps stringToQType_A)
  have x3: "ExchangeContext ?down ''udp'' c m srv = Inl ''i/o timeout''" for c m srv
    by (simp add: ex_dns_env_simps)
  have x4: "ExchangeContext ?refused ''udp'' c m srv = Inr (ex_udp_truncated, 7000000)" for c m srv
    by (simp add: ex_dns_env_simps)
  have y4: "ExchangeContext ?refused ''tcp'' c m srv = Inl ''connection refused''" for c m srv
    by (simp add: ex_dns_env_simps)
  have tu: "m_Truncated ex_udp_truncated"
    by (simp add: ex_udp_truncated_def)
  note T1 = run_error_channels[where lib=ex_rad_lib and env=ex_rad_down and ctx=Background
      and step="Inl ''cannot decode''"
      and ?step2.0="ex_rad_step '''' ?bad" and ?e2.0="ex_rad_cfg '''' ?bad"
      and n="''Invalid-Attribute''" and v="''value''"
      and ?step3.0="ex_rad_step '''' ?good" and ?e3.0="ex_rad_cfg '''' ?good"
      and code=CodeAccessRequest and packet="?packet" and err="''context deadline exceeded''"
      and dlib=ex_dns_lib and denv=ex_answered and dstep="Inl ''cannot decode''"
      and ?dstep2.0="ex_dns_step ''8.8.8.8:53'' ''INVALID''" and ?d2.0="?inv"
      and ?dstep3.0="ex_dns_step ''8.8.8.8:53'' ''A''" and ?d3.0="?cfg" and ?t3.0=TypeA
      and ?denv3.0="?down" and derr="''i/o timeout''"
      and ?dstep4.0="ex_dns_step ''8.8.8.8:53'' ''A''" and ?d4.0="?cfg" and ?t4.0=TypeA
      and ?denv4.0="?refused" and u=ex_udp_truncated and urtt=7000000
      and terr="''connection refused''" and msg=ex_complete]
  note T2 = run_error_channels[where lib=ex_rad_lib and env=ex_rad_down and ctx=Background
      and step="ex_rad_step ''Invalid-Code'' []"
      and dlib=ex_dns_lib and denv=ex_answered and dstep="ex_dns_step '''' ''A''"]
  note rad_iff1 = T1[THEN conjunct2, THEN conjunct1]
  note rad_iff2 = T2[THEN conjunct2, THEN conjunct1]
  note rad_attr = T1[THEN conjunct2, THEN conjunct2, THEN conjunct1]
  note rad_exch = T1[THEN conjunct2, THEN conjunct2, THEN conjunct2, THEN conjunct1]
  note dns_iff1 = T1[THEN conjunct2, THEN conjunct2, THEN conjunct2, THEN conjunct2, THEN conjunct1]
  note dns_iff2 = T2[THEN conjunct2, THEN conjunct2, THEN conjunct2, THEN conjunct2, THEN conjunct1]
  note dns_type = T1[THEN conjunct2, THEN conjunct2, THEN conjunct2, THEN conjunct2, THEN conjunct2,
      THEN conjunct1]
  note dns_exch = T1[THEN conjunct2, THEN conjunct2, THEN conjunct2, THEN conjunct2, THEN conjunct2,
      THEN conjunct2, THEN conjunct1]
  note dns_retr = T1[THEN conjunct2, THEN conjunct2, THEN conjunct2, THEN conjunct2, THEN conjunct2,
      THEN conjunct2, THEN conjunct2, THEN conjunct1]
  note dns_conv = T1[THEN conjunct2, THEN conjunct2, THEN conjunct2, THEN conjunct2, THEN conjunct2,
      THEN conjunct2, THEN conjunct2, THEN conjunct2]
  have a1: "\<exists>err. fst (rad_Run ex_rad_lib ex_rad_down Background (Inl ''cannot decode'')) = Inl err"
    unfolding rad_iff1 using r1 by blast
  have a2: "\<exists>err. fst (rad_Run ex_rad_lib ex_rad_down Background (ex_rad_step ''Invalid-Code'' [])) = Inl err"
    unfolding rad_iff2 using ex_rad_decoded[of "''Invalid-Code''" "[]"] r1' by blast
  have a3: "\<exists>r. rad_Run ex_rad_lib ex_rad_down Background (ex_rad_step '''' ?bad) = (Inr r, [])
         \<and> radr_Err r \<noteq> ''''"
    using rad_attr ex_rad_decoded[of "''''" ?bad] ex_rad_code_name[of ?bad] r2
      ex_invalid_attribute_bad[of ex_rad_lib "''value''"] by blast
  have a4: "\<exists>r tr. rad_Run ex_rad_lib ex_rad_down Background (ex_rad_step '''' ?good) = (Inr r, tr)
         \<and> radr_Err r = ''context deadline exceeded''"
    using rad_exch ex_rad_decoded[of "''''" ?good] ex_rad_code[of ?good] r3 r4 by blast
  have b1: "\<exists>err. fst (dns_Run ex_dns_lib ex_answered Background (Inl ''cannot decode'')) = Inl err"
    unfolding dns_iff1 using d1 by blast
  have b2: "\<exists>err. fst (dns_Run ex_dns_lib ex_answered Background (ex_dns_step '''' ''A'')) = Inl err"
    unfolding dns_iff2 using ex_dns_decoded[of "''''" "''A''"] d1' by blast
  have b3: "\<exists>r. dns_Run ex_dns_lib ex_answered Background (ex_dns_step ''8.8.8.8:53'' ''INVALID'')
             = (Inr r, []) \<and> dnsr_Err r \<noteq> ''''"
    using dns_type ex_dns_decoded[of "''8.8.8.8:53''" "''INVALID''"] s(2) q by blast
  have b4: "\<exists>r tr. dns_Run ex_dns_lib ?down Background (ex_dns_step ''8.8.8.8:53'' ''A'') = (Inr r, tr)
         \<and> dnsr_Err r = ''i/o timeout''"
    using dns_exch ex_dns_decoded[of "''8.8.8.8:53''" "''A''"] s(1) t x3 by blast
  have b5: "\<exists>r tr. dns_Run ex_dns_lib ?refused Background (ex_dns_step ''8.8.8.8:53'' ''A'') = (Inr r, tr)
         \<and> dnsr_Err r = ''UDP response truncated, TCP retry failed: '' @ ''connection refused''"
    using dns_retr ex_dns_decoded[of "''8.8.8.8:53''" "''A''"] s(1) t x4 y4 tu by blast
  have b6: "\<exists>j. dnsMessageToJSON ex_dns_lib ex_complete = Inr j"
    by (rule dns_conv)
  from a1 a2 c ex_invalid_attribute_bad[of ex_rad_lib "''value''"] a3 r4' a4 b1 b2 q' b3 b4 tu b5 b6
  show ?thesis by simp
qed

end
